theory Spec2Isabelle
  imports Main "HOL-Library.Word"
begin

section \<open>Data model\<close>

text \<open>
  The Go structs \<^verbatim>\<open>penguin\<close> (one roster entry) and \<^verbatim>\<open>penguinEntity\<close> (one datastore
  record). Go's \<^verbatim>\<open>int\<close> is a 64-bit two's complement integer on the platforms the
  server runs on; \<open>+\<close> on \<open>64 word\<close> wraps as Go's \<^verbatim>\<open>+=\<close> does.
\<close>

type_synonym go_int = "64 word"

record penguin =
  Id :: string
  Name :: string
  Bio :: string
  VisitCount :: go_int
  FishCount :: go_int
  BellyrubCount :: go_int

record penguinEntity =
  Id :: string
  VisitCount :: go_int
  FishCount :: go_int
  BellyrubCount :: go_int

text \<open>The zero value of \<^verbatim>\<open>var p penguinEntity\<close>.\<close>

definition zero_penguinEntity :: penguinEntity where
  "zero_penguinEntity =
     \<lparr>penguinEntity.Id = [], VisitCount = 0, FishCount = 0, BellyrubCount = 0\<rparr>"

subsection \<open>Time\<close>

text \<open>
  A \<^verbatim>\<open>time.Time\<close> is an instant in nanoseconds, a \<^verbatim>\<open>time.Duration\<close> a 64-bit count of
  nanoseconds. \<^verbatim>\<open>Time.Sub\<close> saturates at the largest and smallest duration.
  Every call of \<^verbatim>\<open>time.Now()\<close> is an argument of the function that makes it.
\<close>

type_synonym time = int

definition Minute :: int where
  "Minute = 60 * 1000000000"

definition maxDuration :: int where
  "maxDuration = 2 ^ 63 - 1"

definition minDuration :: int where
  "minDuration = - (2 ^ 63)"

definition time_Sub :: "time \<Rightarrow> time \<Rightarrow> int" where
  "time_Sub t u =
     (let d = t - u
      in if maxDuration < d then maxDuration
         else if d < minDuration then minDuration
         else d)"

definition time_Since :: "time \<Rightarrow> time \<Rightarrow> int" where
  "time_Since now t = time_Sub now t"

definition time_Add :: "time \<Rightarrow> int \<Rightarrow> time" where
  "time_Add t d = t + d"

subsection \<open>Errors, events, the server's state\<close>

datatype error = ErrNoSuchEntity | ErrDatastore string | ErrMarshal string

fun error_text :: "error \<Rightarrow> string" where
  "error_text ErrNoSuchEntity = ''datastore: no such entity''"
| "error_text (ErrDatastore m) = m"
| "error_text (ErrMarshal m) = m"

text \<open>
  What a handler does to the shared variables, the mutex, the datastore and the log, one
  event per statement of the source, in program order.
\<close>

datatype event =
    MutexLock
  | MutexUnlock
  | MutexRLock
  | MutexRUnlock
  | ReadLastUpdateTime
  | WriteLastUpdateTime
  | ReadPenguins
  | WritePenguin nat
  | DatastoreGet string
  | DatastorePut string penguinEntity
  | Errorf string

text \<open>
  Modelled from the spec: the persistent store (appengine/datastore, an external
  collaborator) is a key-value store keyed by entity id, holding one record per id.
\<close>

type_synonym datastore = "string \<rightharpoonup> penguinEntity"

text \<open>
  The package-level variables \<^verbatim>\<open>penguins\<close> and \<^verbatim>\<open>lastUpdateTime\<close>, the datastore,
  and the trace of events so far.
\<close>

record server =
  penguins :: "penguin list"
  lastUpdateTime :: time
  datastore :: datastore
  trace :: "event list"

text \<open>The \<^verbatim>\<open>http.ResponseWriter\<close>: the status set, if any, and the body written.\<close>

record response =
  status :: "nat option"
  body :: string

definition log_event :: "event \<Rightarrow> server \<Rightarrow> server" where
  "log_event e s = s\<lparr>trace := trace s @ [e]\<rparr>"

section \<open>The datastore calls\<close>

text \<open>
  Modelled from the spec: \<^verbatim>\<open>datastore.Get\<close> returns the record stored under the key, an
  error when there is none, and fails, leaving its destination untouched, when the store
  does not answer. Whether this call fails is decided outside the program: the first
  argument is the error the store answers with, if any.
\<close>

definition datastore_Get ::
    "error option \<Rightarrow> datastore \<Rightarrow> string \<Rightarrow> error + penguinEntity" where
  "datastore_Get fault ds k =
     (case fault of
        Some err \<Rightarrow> Inl err
      | None \<Rightarrow> (case ds k of None \<Rightarrow> Inl ErrNoSuchEntity | Some e \<Rightarrow> Inr e))"

text \<open>
  Modelled from the spec: \<^verbatim>\<open>datastore.Put\<close> writes the record under the key, or fails
  and writes nothing. Whether this call fails is decided outside the program: the first
  argument is the error the store answers with, if any.
\<close>

definition datastore_Put ::
    "error option \<Rightarrow> datastore \<Rightarrow> string \<Rightarrow> penguinEntity \<Rightarrow> error option \<times> datastore" where
  "datastore_Put fault ds k e =
     (case fault of Some err \<Rightarrow> (Some err, ds) | None \<Rightarrow> (None, ds(k \<mapsto> e)))"

section \<open>The functions of the server\<close>

text \<open>
  \<^verbatim>\<open>dbGetPenguin\<close>: reads a record, or, on any error of \<^verbatim>\<open>datastore.Get\<close>, returns the zero
  record with the requested id. \<open>get_fault\<close> is what the datastore answers to this \<^verbatim>\<open>Get\<close>.
\<close>

definition dbGetPenguin ::
    "error option \<Rightarrow> string \<Rightarrow> server \<Rightarrow> penguinEntity \<times> server" where
  "dbGetPenguin get_fault id' s =
     (let p = zero_penguinEntity;
          s = log_event (DatastoreGet id') s
      in case datastore_Get get_fault (datastore s) id' of
           Inr stored \<Rightarrow> (stored, s)
         | Inl err \<Rightarrow> (p\<lparr>penguinEntity.Id := id'\<rparr>, s))"

text \<open>\<^verbatim>\<open>penguinExists\<close>: the loop over the roster, leaving at the first match.\<close>

fun penguinExists_range :: "string \<Rightarrow> penguin list \<Rightarrow> bool \<Rightarrow> bool" where
  "penguinExists_range id' [] result = result"
| "penguinExists_range id' (p # ps) result =
     (if penguin.Id p = id' then True else penguinExists_range id' ps result)"

definition penguinExists :: "string \<Rightarrow> server \<Rightarrow> bool \<times> server" where
  "penguinExists id' s =
     (let s = log_event MutexRLock s;
          s = log_event ReadPenguins s;
          result = penguinExists_range id' (penguins s) False;
          s = log_event MutexRUnlock s
      in (result, s))"

text \<open>
  The loop of \<^verbatim>\<open>updatePenguinsStatistics\<close>: \<^verbatim>\<open>for i, p := range penguins\<close>, run from
  index \<open>i\<close> up to the length \<open>n\<close> that \<^verbatim>\<open>range\<close> read when the loop started.
  \<open>get_faults i\<close> is what the datastore answers to the \<^verbatim>\<open>Get\<close> of iteration \<open>i\<close>.
\<close>

function range_penguins ::
    "(nat \<Rightarrow> error option) \<Rightarrow> nat \<Rightarrow> nat \<Rightarrow> server \<Rightarrow> server" where
  "range_penguins get_faults n i s =
     (if i < n then
        (let s = log_event ReadPenguins s;
             p = penguins s ! i
         in case dbGetPenguin (get_faults i) (penguin.Id p) s of
              (penguin_db, s) \<Rightarrow>
                (let s = s\<lparr>penguins := (penguins s)
                           [i := (penguins s ! i)
                              \<lparr>penguin.VisitCount := penguinEntity.VisitCount penguin_db,
                               penguin.FishCount := penguinEntity.FishCount penguin_db,
                               penguin.BellyrubCount := penguinEntity.BellyrubCount penguin_db\<rparr>]\<rparr>;
                     s = log_event (WritePenguin i) s
                 in range_penguins get_faults n (i + 1) s))
      else s)"
  by pat_completeness auto
termination
  by (relation "measure (\<lambda>(get_faults, n, i, s). n - i)") auto

text \<open>\<^verbatim>\<open>updatePenguinsStatistics\<close>: \<open>now1\<close> is the clock read by \<^verbatim>\<open>time.Since\<close>, \<open>now2\<close>
  the clock read by the assignment to \<^verbatim>\<open>lastUpdateTime\<close>.\<close>

definition updatePenguinsStatistics ::
    "(nat \<Rightarrow> error option) \<Rightarrow> time \<Rightarrow> time \<Rightarrow> server \<Rightarrow> server" where
  "updatePenguinsStatistics get_faults now1 now2 s =
     (let s = log_event ReadLastUpdateTime s
      in if time_Since now1 (lastUpdateTime s) \<le> 10 * Minute then s
         else
           (let s = log_event MutexLock s;
                s = log_event WriteLastUpdateTime (s\<lparr>lastUpdateTime := now2\<rparr>);
                s = range_penguins get_faults (length (penguins s)) 0 s
            in log_event MutexUnlock s))"

text \<open>\<^verbatim>\<open>updateHandler\<close>: the forced update.\<close>

definition updateHandler :: "time \<Rightarrow> response \<Rightarrow> server \<Rightarrow> response \<times> server" where
  "updateHandler now w s =
     (w, log_event WriteLastUpdateTime (s\<lparr>lastUpdateTime := time_Add now (- 20 * Minute)\<rparr>))"

text \<open>
  \<^verbatim>\<open>penguinsHandler\<close>: \<^verbatim>\<open>json.Marshal\<close> is a parameter; the deferred \<^verbatim>\<open>RUnlock\<close> runs on
  both returns.
\<close>

definition penguinsHandler ::
    "(penguin list \<Rightarrow> error + string) \<Rightarrow> (nat \<Rightarrow> error option) \<Rightarrow> time \<Rightarrow> time \<Rightarrow>
       response \<Rightarrow> server \<Rightarrow> response \<times> server" where
  "penguinsHandler json_Marshal get_faults now1 now2 w s =
     (let s = updatePenguinsStatistics get_faults now1 now2 s;
          s = log_event MutexRLock s;
          s = log_event ReadPenguins s
      in case json_Marshal (penguins s) of
           Inl err \<Rightarrow>
             (w, log_event MutexRUnlock
                   (log_event (Errorf (''Can't create JSON response: '' @ error_text err)) s))
         | Inr p \<Rightarrow> (w\<lparr>body := body w @ p\<rparr>, log_event MutexRUnlock s))"

text \<open>
  The three event handlers. \<open>get_fault\<close> and \<open>put_fault\<close> are what the datastore answers
  to the \<^verbatim>\<open>Get\<close> and to the \<^verbatim>\<open>Put\<close> of this request, \<open>penguin_id\<close> is
  \<^verbatim>\<open>r.FormValue("id")\<close>.
\<close>

definition visitHandler ::
    "error option \<Rightarrow> error option \<Rightarrow> string \<Rightarrow> response \<Rightarrow> server \<Rightarrow> response \<times> server" where
  "visitHandler get_fault put_fault penguin_id w s =
     (case penguinExists penguin_id s of
        (found, s) \<Rightarrow>
          if found then
            (case dbGetPenguin get_fault penguin_id s of
               (penguin_db, s) \<Rightarrow>
                 (let penguin_db = penguin_db
                        \<lparr>penguinEntity.VisitCount := penguinEntity.VisitCount penguin_db + 1\<rparr>;
                      k = penguin_id
                  in case datastore_Put put_fault (datastore s) k penguin_db of
                       (err, ds) \<Rightarrow>
                         (let s = log_event (DatastorePut k penguin_db) (s\<lparr>datastore := ds\<rparr>)
                          in case err of
                               Some e \<Rightarrow>
                                 (w, log_event
                                       (Errorf (''Error writing into the datastore: '' @ error_text e)) s)
                             | None \<Rightarrow> (w, s))))
          else (w, s))"

definition fishHandler ::
    "error option \<Rightarrow> error option \<Rightarrow> string \<Rightarrow> response \<Rightarrow> server \<Rightarrow> response \<times> server" where
  "fishHandler get_fault put_fault penguin_id w s =
     (case penguinExists penguin_id s of
        (found, s) \<Rightarrow>
          if found then
            (case dbGetPenguin get_fault penguin_id s of
               (penguin_db, s) \<Rightarrow>
                 (let penguin_db = penguin_db
                        \<lparr>penguinEntity.FishCount := penguinEntity.FishCount penguin_db + 1\<rparr>;
                      k = penguin_id
                  in case datastore_Put put_fault (datastore s) k penguin_db of
                       (err, ds) \<Rightarrow>
                         (let s = log_event (DatastorePut k penguin_db) (s\<lparr>datastore := ds\<rparr>)
                          in case err of
                               Some e \<Rightarrow>
                                 (w, log_event
                                       (Errorf (''Error writing into the datastore: '' @ error_text e)) s)
                             | None \<Rightarrow> (w, s))))
          else (w, s))"

definition bellyrubHandler ::
    "error option \<Rightarrow> error option \<Rightarrow> string \<Rightarrow> response \<Rightarrow> server \<Rightarrow> response \<times> server" where
  "bellyrubHandler get_fault put_fault penguin_id w s =
     (case penguinExists penguin_id s of
        (found, s) \<Rightarrow>
          if found then
            (case dbGetPenguin get_fault penguin_id s of
               (penguin_db, s) \<Rightarrow>
                 (let penguin_db = penguin_db
                        \<lparr>penguinEntity.BellyrubCount := penguinEntity.BellyrubCount penguin_db + 1\<rparr>;
                      k = penguin_id
                  in case datastore_Put put_fault (datastore s) k penguin_db of
                       (err, ds) \<Rightarrow>
                         (let s = log_event (DatastorePut k penguin_db) (s\<lparr>datastore := ds\<rparr>)
                          in case err of
                               Some e \<Rightarrow>
                                 (w, log_event
                                       (Errorf (''Error writing into the datastore: '' @ error_text e)) s)
                             | None \<Rightarrow> (w, s))))
          else (w, s))"

text \<open>\<^verbatim>\<open>init\<close>: the roster as \<^verbatim>\<open>loadPenguinsJson\<close> decoded it, and a last update time
  twenty minutes in the past. The datastore is the one the process finds.\<close>

definition init :: "penguin list \<Rightarrow> time \<Rightarrow> datastore \<Rightarrow> server" where
  "init loaded now ds =
     \<lparr>penguins = loaded, lastUpdateTime = time_Add now (- 20 * Minute),
      datastore = ds, trace = []\<rparr>"

section \<open>The functions of app/app.go that differ\<close>

text \<open>
  In \<^verbatim>\<open>app/app.go\<close> the mutex is a \<^verbatim>\<open>sync.Mutex\<close> taken by \<^verbatim>\<open>penguinsHandler\<close> only,
  and the event handlers assign the result of \<^verbatim>\<open>datastore.Put\<close> to \<^verbatim>\<open>_, _\<close>.
  \<^verbatim>\<open>dbGetPenguin\<close>, \<^verbatim>\<open>updateHandler\<close> and the loops are the same.
\<close>

definition penguinExists_app :: "string \<Rightarrow> server \<Rightarrow> bool \<times> server" where
  "penguinExists_app id' s =
     (let s = log_event ReadPenguins s;
          result = penguinExists_range id' (penguins s) False
      in (result, s))"

definition updatePenguinsStatistics_app ::
    "(nat \<Rightarrow> error option) \<Rightarrow> time \<Rightarrow> time \<Rightarrow> server \<Rightarrow> server" where
  "updatePenguinsStatistics_app get_faults now1 now2 s =
     (let s = log_event ReadLastUpdateTime s
      in if time_Since now1 (lastUpdateTime s) \<le> 10 * Minute then s
         else
           (let s = log_event WriteLastUpdateTime (s\<lparr>lastUpdateTime := now2\<rparr>)
            in range_penguins get_faults (length (penguins s)) 0 s))"

definition penguinsHandler_app ::
    "(penguin list \<Rightarrow> error + string) \<Rightarrow> (nat \<Rightarrow> error option) \<Rightarrow> time \<Rightarrow> time \<Rightarrow>
       response \<Rightarrow> server \<Rightarrow> response \<times> server" where
  "penguinsHandler_app json_Marshal get_faults now1 now2 w s =
     (let s = log_event MutexLock s;
          s = updatePenguinsStatistics_app get_faults now1 now2 s;
          s = log_event ReadPenguins s
      in case json_Marshal (penguins s) of
           Inl err \<Rightarrow>
             (w, log_event MutexUnlock
                   (log_event (Errorf (''Can't create JSON response: '' @ error_text err)) s))
         | Inr p \<Rightarrow> (w\<lparr>body := body w @ p\<rparr>, log_event MutexUnlock s))"

definition visitHandler_app ::
    "error option \<Rightarrow> error option \<Rightarrow> string \<Rightarrow> response \<Rightarrow> server \<Rightarrow> response \<times> server" where
  "visitHandler_app get_fault put_fault penguin_id w s =
     (case penguinExists_app penguin_id s of
        (found, s) \<Rightarrow>
          if found then
            (case dbGetPenguin get_fault penguin_id s of
               (penguin_db, s) \<Rightarrow>
                 (let penguin_db = penguin_db
                        \<lparr>penguinEntity.VisitCount := penguinEntity.VisitCount penguin_db + 1\<rparr>;
                      k = penguin_id
                  in case datastore_Put put_fault (datastore s) k penguin_db of
                       (_, ds) \<Rightarrow> (w, log_event (DatastorePut k penguin_db) (s\<lparr>datastore := ds\<rparr>))))
          else (w, s))"

definition fishHandler_app ::
    "error option \<Rightarrow> error option \<Rightarrow> string \<Rightarrow> response \<Rightarrow> server \<Rightarrow> response \<times> server" where
  "fishHandler_app get_fault put_fault penguin_id w s =
     (case penguinExists_app penguin_id s of
        (found, s) \<Rightarrow>
          if found then
            (case dbGetPenguin get_fault penguin_id s of
               (penguin_db, s) \<Rightarrow>
                 (let penguin_db = penguin_db
                        \<lparr>penguinEntity.FishCount := penguinEntity.FishCount penguin_db + 1\<rparr>;
                      k = penguin_id
                  in case datastore_Put put_fault (datastore s) k penguin_db of
                       (_, ds) \<Rightarrow> (w, log_event (DatastorePut k penguin_db) (s\<lparr>datastore := ds\<rparr>))))
          else (w, s))"

definition bellyrubHandler_app ::
    "error option \<Rightarrow> error option \<Rightarrow> string \<Rightarrow> response \<Rightarrow> server \<Rightarrow> response \<times> server" where
  "bellyrubHandler_app get_fault put_fault penguin_id w s =
     (case penguinExists_app penguin_id s of
        (found, s) \<Rightarrow>
          if found then
            (case dbGetPenguin get_fault penguin_id s of
               (penguin_db, s) \<Rightarrow>
                 (let penguin_db = penguin_db
                        \<lparr>penguinEntity.BellyrubCount := penguinEntity.BellyrubCount penguin_db + 1\<rparr>;
                      k = penguin_id
                  in case datastore_Put put_fault (datastore s) k penguin_db of
                       (_, ds) \<Rightarrow> (w, log_event (DatastorePut k penguin_db) (s\<lparr>datastore := ds\<rparr>))))
          else (w, s))"

section \<open>Observing a run\<close>

text \<open>The events a call added to the trace, and counters over them.\<close>

definition new_events :: "server \<Rightarrow> server \<Rightarrow> event list" where
  "new_events s s' = drop (length (trace s)) (trace s')"

fun is_DatastoreGet :: "event \<Rightarrow> bool" where
  "is_DatastoreGet (DatastoreGet k) = True"
| "is_DatastoreGet e = False"

fun is_DatastorePut :: "event \<Rightarrow> bool" where
  "is_DatastorePut (DatastorePut k e) = True"
| "is_DatastorePut e = False"

fun is_Errorf :: "event \<Rightarrow> bool" where
  "is_Errorf (Errorf m) = True"
| "is_Errorf e = False"

definition gateway_fetches :: "event list \<Rightarrow> nat" where
  "gateway_fetches es = length (filter is_DatastoreGet es)"

definition gateway_puts :: "event list \<Rightarrow> nat" where
  "gateway_puts es = length (filter is_DatastorePut es)"

definition logged_errors :: "event list \<Rightarrow> nat" where
  "logged_errors es = length (filter is_Errorf es)"

text \<open>A reconciliation pass assigns \<^verbatim>\<open>lastUpdateTime\<close> once, before its loop.\<close>

definition reconciliation_passes :: "event list \<Rightarrow> nat" where
  "reconciliation_passes es = length (filter (\<lambda>e. e = WriteLastUpdateTime) es)"

text \<open>
  The steps of a refresh: the reads and writes of \<^verbatim>\<open>lastUpdateTime\<close> and of the roster,
  and the fetches. \<open>under_write_lock held es\<close> holds when each of these steps in \<open>es\<close>
  runs between a \<^verbatim>\<open>Lock\<close> and its \<^verbatim>\<open>Unlock\<close>; \<open>held\<close> says whether the lock is held at
  the start. \<open>write_lock_after\<close> says whether it is held at the end.
\<close>

fun is_refresh_step :: "event \<Rightarrow> bool" where
  "is_refresh_step ReadLastUpdateTime = True"
| "is_refresh_step WriteLastUpdateTime = True"
| "is_refresh_step ReadPenguins = True"
| "is_refresh_step (WritePenguin i) = True"
| "is_refresh_step (DatastoreGet k) = True"
| "is_refresh_step e = False"

fun under_write_lock :: "bool \<Rightarrow> event list \<Rightarrow> bool" where
  "under_write_lock held [] = True"
| "under_write_lock held (MutexLock # es) = under_write_lock True es"
| "under_write_lock held (MutexUnlock # es) = under_write_lock False es"
| "under_write_lock held (e # es) =
     (if is_refresh_step e then held \<and> under_write_lock held es
      else under_write_lock held es)"

fun write_lock_after :: "bool \<Rightarrow> event list \<Rightarrow> bool" where
  "write_lock_after held [] = held"
| "write_lock_after held (MutexLock # es) = write_lock_after True es"
| "write_lock_after held (MutexUnlock # es) = write_lock_after False es"
| "write_lock_after held (e # es) = write_lock_after held es"

text \<open>
  \<open>roster_reads_locked held es\<close>: each read of the roster in \<open>es\<close> runs between an
  \<^verbatim>\<open>RLock\<close> and its \<^verbatim>\<open>RUnlock\<close>, or a \<^verbatim>\<open>Lock\<close> and its \<^verbatim>\<open>Unlock\<close>.
\<close>

fun roster_reads_locked :: "bool \<Rightarrow> event list \<Rightarrow> bool" where
  "roster_reads_locked held [] = True"
| "roster_reads_locked held (MutexLock # es) = roster_reads_locked True es"
| "roster_reads_locked held (MutexUnlock # es) = roster_reads_locked False es"
| "roster_reads_locked held (MutexRLock # es) = roster_reads_locked True es"
| "roster_reads_locked held (MutexRUnlock # es) = roster_reads_locked False es"
| "roster_reads_locked held (ReadPenguins # es) = (held \<and> roster_reads_locked held es)"
| "roster_reads_locked held (e # es) = roster_reads_locked held es"

text \<open>
  \<open>applyCounters\<close>, in the spec's words: overwrite the three counter fields of a roster
  entry with those of a record. \<open>fetched get_fault ds p\<close> is the record \<^verbatim>\<open>dbGetPenguin\<close>
  returns for the entry's id from the datastore \<open>ds\<close>, the \<^verbatim>\<open>Get\<close> answered with \<open>get_fault\<close>.
\<close>

definition applyCounters :: "penguinEntity \<Rightarrow> penguin \<Rightarrow> penguin" where
  "applyCounters counters p =
     p\<lparr>penguin.VisitCount := penguinEntity.VisitCount counters,
       penguin.FishCount := penguinEntity.FishCount counters,
       penguin.BellyrubCount := penguinEntity.BellyrubCount counters\<rparr>"

definition fetched :: "error option \<Rightarrow> datastore \<Rightarrow> penguin \<Rightarrow> penguinEntity" where
  "fetched get_fault ds p =
     (case (get_fault, ds (penguin.Id p)) of
        (None, Some stored) \<Rightarrow> stored
      | _ \<Rightarrow> \<lparr>penguinEntity.Id = penguin.Id p, VisitCount = 0, FishCount = 0,
               BellyrubCount = 0\<rparr>)"

text \<open>The events of the loop of a pass over the entries \<open>ps\<close>, the first at index \<open>i\<close>.\<close>

fun pass_events :: "nat \<Rightarrow> penguin list \<Rightarrow> event list" where
  "pass_events i [] = []"
| "pass_events i (p # ps) =
     [ReadPenguins, DatastoreGet (penguin.Id p), WritePenguin i] @ pass_events (i + 1) ps"

text \<open>
  The roster entries \<open>ps\<close>, the first at index \<open>i\<close>, each with the counters fetched for
  it.
\<close>

fun pass_roster ::
    "(nat \<Rightarrow> error option) \<Rightarrow> datastore \<Rightarrow> nat \<Rightarrow> penguin list \<Rightarrow> penguin list" where
  "pass_roster get_faults ds i [] = []"
| "pass_roster get_faults ds i (p # ps) =
     applyCounters (fetched (get_faults i) ds p) p # pass_roster get_faults ds (i + 1) ps"

section \<open>Reachable states\<close>

text \<open>
  The states of the server: a process starts on an empty datastore, handles requests,
  whatever the datastore answers to them, and may be restarted with another roster on the
  datastore it left. (\<^verbatim>\<open>rootHandler\<close>
  reads the length of the roster and changes nothing.)
\<close>

inductive reachable :: "server \<Rightarrow> bool" where
  start: "reachable (init loaded now Map.empty)"
| restart: "reachable s \<Longrightarrow> reachable (init loaded now (datastore s))"
| penguins_request:
    "reachable s \<Longrightarrow>
     reachable (snd (penguinsHandler json_Marshal get_faults now1 now2 w s))"
| update_request: "reachable s \<Longrightarrow> reachable (snd (updateHandler now w s))"
| visit_request:
    "reachable s \<Longrightarrow> reachable (snd (visitHandler get_fault put_fault penguin_id w s))"
| fish_request:
    "reachable s \<Longrightarrow> reachable (snd (fishHandler get_fault put_fault penguin_id w s))"
| bellyrub_request:
    "reachable s \<Longrightarrow> reachable (snd (bellyrubHandler get_fault put_fault penguin_id w s))"

section \<open>The scenario of the spec\<close>

text \<open>
  The roster \<^verbatim>\<open>[{id:"p1",name:"Pingu"}]\<close>, a server started on it at minute 20 (so that
  its last update time is 0) on an empty datastore, and a response nothing was written to.
\<close>

definition scenario_roster :: "penguin list" where
  "scenario_roster =
     [\<lparr>penguin.Id = ''p1'', Name = ''Pingu'', Bio = [], VisitCount = 0, FishCount = 0,
       BellyrubCount = 0\<rparr>]"

definition scenario_server :: server where
  "scenario_server = init scenario_roster (20 * Minute) Map.empty"

definition empty_response :: response where
  "empty_response = \<lparr>status = None, body = []\<rparr>"

section \<open>Time, the trace and the loop of a pass\<close>

lemma dbGetPenguin_fst:
  "fst (dbGetPenguin get_fault id' s) =
     (case (get_fault, datastore s id') of
        (None, Some stored) \<Rightarrow> stored
      | _ \<Rightarrow> \<lparr>penguinEntity.Id = id', VisitCount = 0, FishCount = 0, BellyrubCount = 0\<rparr>)"
  by (simp add: dbGetPenguin_def datastore_Get_def log_event_def zero_penguinEntity_def
      split: option.splits)

lemma dbGetPenguin_fst_None:
  "fst (dbGetPenguin None id' s) =
     (case datastore s id' of
        Some stored \<Rightarrow> stored
      | None \<Rightarrow> \<lparr>penguinEntity.Id = id', VisitCount = 0, FishCount = 0, BellyrubCount = 0\<rparr>)"
  by (simp add: dbGetPenguin_fst split: option.splits)

lemma dbGetPenguin_fst_Some:
  "fst (dbGetPenguin (Some err) id' s) =
     \<lparr>penguinEntity.Id = id', VisitCount = 0, FishCount = 0, BellyrubCount = 0\<rparr>"
  by (simp add: dbGetPenguin_fst)

lemma dbGetPenguin_snd:
  "snd (dbGetPenguin get_fault id' s) = log_event (DatastoreGet id') s"
  by (simp add: dbGetPenguin_def datastore_Get_def Let_def split: option.splits sum.splits)

lemma time_Since_le_ttl:
  "time_Since now t \<le> 10 * Minute \<longleftrightarrow> now - t \<le> 10 * Minute"
  by (simp add: time_Since_def time_Sub_def Let_def Minute_def maxDuration_def minDuration_def)

lemma log_event_simps [simp]:
  "penguins (log_event e s) = penguins s"
  "lastUpdateTime (log_event e s) = lastUpdateTime s"
  "datastore (log_event e s) = datastore s"
  "trace (log_event e s) = trace s @ [e]"
  by (simp_all add: log_event_def)

lemma fetched_dbGetPenguin:
  "fst (dbGetPenguin get_fault (penguin.Id p) s) = fetched get_fault (datastore s) p"
  by (simp add: dbGetPenguin_fst fetched_def)

lemma range_penguins_step:
  "i < n \<Longrightarrow>
   range_penguins get_faults n i s =
     range_penguins get_faults n (i + 1)
       (s\<lparr>penguins := (penguins s)
              [i := applyCounters (fetched (get_faults i) (datastore s) (penguins s ! i))
                      (penguins s ! i)],
          trace := trace s @
              [ReadPenguins, DatastoreGet (penguin.Id (penguins s ! i)), WritePenguin i]\<rparr>)"
  apply (subst range_penguins.simps)
  apply (simp add: Let_def split_beta dbGetPenguin_snd fetched_dbGetPenguin applyCounters_def
      del: range_penguins.simps)
  apply (simp add: log_event_def del: range_penguins.simps)
  done

lemma range_penguins_stop: "\<not> i < n \<Longrightarrow> range_penguins get_faults n i s = s"
  by (subst range_penguins.simps) simp

lemma range_penguins_eq:
  "i \<le> length (penguins s) \<Longrightarrow>
   range_penguins get_faults (length (penguins s)) i s =
     s\<lparr>penguins := take i (penguins s) @
          pass_roster get_faults (datastore s) i (drop i (penguins s)),
        trace := trace s @ pass_events i (drop i (penguins s))\<rparr>"
proof (induction "length (penguins s) - i" arbitrary: i s)
  case 0
  then show ?case by (simp add: range_penguins_stop)
next
  case (Suc d)
  then have lt: "i < length (penguins s)" by simp
  let ?s1 = "s\<lparr>penguins := (penguins s)
              [i := applyCounters (fetched (get_faults i) (datastore s) (penguins s ! i))
                      (penguins s ! i)],
          trace := trace s @
              [ReadPenguins, DatastoreGet (penguin.Id (penguins s ! i)), WritePenguin i]\<rparr>"
  have len: "length (penguins ?s1) = length (penguins s)" by simp
  have d: "d = length (penguins ?s1) - (i + 1)" using Suc.hyps(2) by simp
  have le: "i + 1 \<le> length (penguins ?s1)" using lt by simp
  have "range_penguins get_faults (length (penguins s)) i s =
          range_penguins get_faults (length (penguins ?s1)) (i + 1) ?s1"
    using range_penguins_step[OF lt] by simp
  also have "\<dots> =
      ?s1\<lparr>penguins := take (i + 1) (penguins ?s1) @
             pass_roster get_faults (datastore ?s1) (i + 1) (drop (i + 1) (penguins ?s1)),
          trace := trace ?s1 @ pass_events (i + 1) (drop (i + 1) (penguins ?s1))\<rparr>"
    by (rule Suc.hyps(1)[OF d le])
  also have "\<dots> =
      s\<lparr>penguins := take i (penguins s) @
           pass_roster get_faults (datastore s) i (drop i (penguins s)),
        trace := trace s @ pass_events i (drop i (penguins s))\<rparr>"
    using lt
    by (simp add: take_Suc_conv_app_nth Cons_nth_drop_Suc[symmetric] upd_conv_take_nth_drop)
  finally show ?case .
qed

lemma pass_roster_enumerate:
  "pass_roster get_faults ds i ps =
     map (\<lambda>(j, p). applyCounters (fetched (get_faults j) ds p) p) (enumerate i ps)"
  by (induction ps arbitrary: i) simp_all

lemma pass_roster_no_faults:
  "pass_roster (\<lambda>j. None) ds i ps = map (\<lambda>p. applyCounters (fetched None ds p) p) ps"
  by (induction ps arbitrary: i) simp_all

lemma length_pass_roster [simp]: "length (pass_roster get_faults ds i ps) = length ps"
  by (induction ps arbitrary: i) simp_all

lemma pass_roster_static:
  "map penguin.Id (pass_roster get_faults ds i ps) = map penguin.Id ps"
  "map penguin.Name (pass_roster get_faults ds i ps) = map penguin.Name ps"
  "map penguin.Bio (pass_roster get_faults ds i ps) = map penguin.Bio ps"
  by (induction ps arbitrary: i) (simp_all add: applyCounters_def)

lemma pass_roster_nth:
  "j < length ps \<Longrightarrow>
   pass_roster get_faults ds i ps ! j =
     applyCounters (fetched (get_faults (i + j)) ds (ps ! j)) (ps ! j)"
proof (induction ps arbitrary: i j)
  case Nil
  then show ?case by simp
next
  case (Cons p ps)
  then show ?case by (cases j) simp_all
qed

lemma updatePenguinsStatistics_fresh:
  "now1 - lastUpdateTime s \<le> 10 * Minute \<Longrightarrow>
   updatePenguinsStatistics get_faults now1 now2 s =
     s\<lparr>trace := trace s @ [ReadLastUpdateTime]\<rparr>"
  by (simp add: updatePenguinsStatistics_def Let_def time_Since_le_ttl log_event_def)

lemma updatePenguinsStatistics_stale:
  assumes "10 * Minute < now1 - lastUpdateTime s"
  shows "updatePenguinsStatistics get_faults now1 now2 s =
     s\<lparr>penguins := pass_roster get_faults (datastore s) 0 (penguins s),
       lastUpdateTime := now2,
       trace := trace s @ [ReadLastUpdateTime, MutexLock, WriteLastUpdateTime]
                  @ pass_events 0 (penguins s) @ [MutexUnlock]\<rparr>"
proof -
  let ?s1 = "log_event WriteLastUpdateTime
               (log_event MutexLock (log_event ReadLastUpdateTime s)\<lparr>lastUpdateTime := now2\<rparr>)"
  have "updatePenguinsStatistics get_faults now1 now2 s =
          log_event MutexUnlock (range_penguins get_faults (length (penguins ?s1)) 0 ?s1)"
    using assms by (simp add: updatePenguinsStatistics_def Let_def time_Since_le_ttl)
  also have "range_penguins get_faults (length (penguins ?s1)) 0 ?s1 =
      ?s1\<lparr>penguins := take 0 (penguins ?s1) @
                pass_roster get_faults (datastore ?s1) 0 (drop 0 (penguins ?s1)),
           trace := trace ?s1 @ pass_events 0 (drop 0 (penguins ?s1))\<rparr>"
    by (rule range_penguins_eq) simp
  finally show ?thesis
    by (simp add: log_event_def)
qed

lemma gateway_fetches_pass_events: "gateway_fetches (pass_events i ps) = length ps"
  by (induction ps arbitrary: i) (simp_all add: gateway_fetches_def)

lemma reconciliation_passes_pass_events: "reconciliation_passes (pass_events i ps) = 0"
  by (induction ps arbitrary: i) (simp_all add: reconciliation_passes_def)

lemma gateway_fetches_append:
  "gateway_fetches (xs @ ys) = gateway_fetches xs + gateway_fetches ys"
  by (simp add: gateway_fetches_def)

lemma reconciliation_passes_append:
  "reconciliation_passes (xs @ ys) = reconciliation_passes xs + reconciliation_passes ys"
  by (simp add: reconciliation_passes_def)

lemma gateway_fetches_Nil: "gateway_fetches [] = 0"
  by (simp add: gateway_fetches_def)

lemma gateway_fetches_Cons:
  "gateway_fetches (e # es) = (if is_DatastoreGet e then 1 else 0) + gateway_fetches es"
  by (simp add: gateway_fetches_def)

lemma reconciliation_passes_Nil: "reconciliation_passes [] = 0"
  by (simp add: reconciliation_passes_def)

lemma reconciliation_passes_Cons:
  "reconciliation_passes (e # es) =
     (if e = WriteLastUpdateTime then 1 else 0) + reconciliation_passes es"
  by (simp add: reconciliation_passes_def)

lemmas count_events =
  gateway_fetches_Nil gateway_fetches_Cons gateway_fetches_append gateway_fetches_pass_events
  reconciliation_passes_Nil reconciliation_passes_Cons reconciliation_passes_append
  reconciliation_passes_pass_events

lemma new_events_append: "trace s' = trace s @ es \<Longrightarrow> new_events s s' = es"
  by (simp add: new_events_def)

lemma new_events_fresh:
  "now1 - lastUpdateTime s \<le> 10 * Minute \<Longrightarrow>
   new_events s (updatePenguinsStatistics get_faults now1 now2 s) = [ReadLastUpdateTime]"
  by (simp add: updatePenguinsStatistics_fresh new_events_def)

lemma new_events_stale:
  "10 * Minute < now1 - lastUpdateTime s \<Longrightarrow>
   new_events s (updatePenguinsStatistics get_faults now1 now2 s) =
     [ReadLastUpdateTime, MutexLock, WriteLastUpdateTime] @ pass_events 0 (penguins s)
       @ [MutexUnlock]"
  by (simp add: updatePenguinsStatistics_stale new_events_def)

lemma new_events_trans:
  "trace s1 = trace s @ es1 \<Longrightarrow> trace s2 = trace s1 @ es2 \<Longrightarrow> new_events s s2 = es1 @ es2"
  by (simp add: new_events_def)

lemma trace_update:
  "trace (updatePenguinsStatistics get_faults now1 now2 s) =
     trace s @ new_events s (updatePenguinsStatistics get_faults now1 now2 s)"
  by (cases "now1 - lastUpdateTime s \<le> 10 * Minute")
     (simp_all add: updatePenguinsStatistics_fresh updatePenguinsStatistics_stale new_events_def)

lemma scenario_server_simps:
  "penguins scenario_server = scenario_roster"
  "lastUpdateTime scenario_server = 0"
  "datastore scenario_server = Map.empty"
  "trace scenario_server = []"
  by (simp_all add: scenario_server_def init_def time_Add_def)

section \<open>The event handlers, step by step\<close>

lemma penguinExists_range_iff:
  "penguinExists_range id' ps result \<longleftrightarrow> id' \<in> penguin.Id ` set ps \<or> result"
  by (induction ps) auto

lemma penguinExists_eq:
  "penguinExists id' s =
     (id' \<in> penguin.Id ` set (penguins s),
      s\<lparr>trace := trace s @ [MutexRLock, ReadPenguins, MutexRUnlock]\<rparr>)"
  by (simp add: penguinExists_def Let_def penguinExists_range_iff log_event_def)

lemma penguinExists_app_eq:
  "penguinExists_app id' s =
     (id' \<in> penguin.Id ` set (penguins s), s\<lparr>trace := trace s @ [ReadPenguins]\<rparr>)"
  by (simp add: penguinExists_app_def Let_def penguinExists_range_iff log_event_def)

lemma dbGetPenguin_eq:
  "dbGetPenguin get_fault id' s = (fst (dbGetPenguin get_fault id' s), s\<lparr>trace := trace s @ [DatastoreGet id']\<rparr>)"
  by (simp add: prod_eq_iff dbGetPenguin_snd log_event_def)

lemma dbGetPenguin_fst_trace [simp]:
  "fst (dbGetPenguin get_fault id' (s\<lparr>trace := es\<rparr>)) = fst (dbGetPenguin get_fault id' s)"
  by (simp add: dbGetPenguin_fst)

lemma visitHandler_absent:
  "penguin_id \<notin> penguin.Id ` set (penguins s) \<Longrightarrow>
   visitHandler get_fault put_fault penguin_id w s =
     (w, s\<lparr>trace := trace s @ [MutexRLock, ReadPenguins, MutexRUnlock]\<rparr>)"
  by (simp add: visitHandler_def penguinExists_eq)

lemma visitHandler_stored:
  "penguin_id \<in> penguin.Id ` set (penguins s) \<Longrightarrow>
   visitHandler get_fault None penguin_id w s =
     (w, s\<lparr>datastore := (datastore s)(penguin_id \<mapsto>
              (fst (dbGetPenguin get_fault penguin_id s))
                \<lparr>penguinEntity.VisitCount :=
                   penguinEntity.VisitCount (fst (dbGetPenguin get_fault penguin_id s)) + 1\<rparr>),
           trace := trace s @ [MutexRLock, ReadPenguins, MutexRUnlock, DatastoreGet penguin_id,
              DatastorePut penguin_id
                ((fst (dbGetPenguin get_fault penguin_id s))
                   \<lparr>penguinEntity.VisitCount :=
                      penguinEntity.VisitCount (fst (dbGetPenguin get_fault penguin_id s)) + 1\<rparr>)]\<rparr>)"
  apply (simp add: visitHandler_def penguinExists_eq)
  apply (subst dbGetPenguin_eq)
  apply (simp add: datastore_Put_def Let_def log_event_def)
  done

lemma visitHandler_failed:
  "penguin_id \<in> penguin.Id ` set (penguins s) \<Longrightarrow>
   visitHandler get_fault (Some err) penguin_id w s =
     (w, s\<lparr>trace := trace s @ [MutexRLock, ReadPenguins, MutexRUnlock, DatastoreGet penguin_id,
              DatastorePut penguin_id
                ((fst (dbGetPenguin get_fault penguin_id s))
                   \<lparr>penguinEntity.VisitCount :=
                      penguinEntity.VisitCount (fst (dbGetPenguin get_fault penguin_id s)) + 1\<rparr>),
              Errorf (''Error writing into the datastore: '' @ error_text err)]\<rparr>)"
  apply (simp add: visitHandler_def penguinExists_eq)
  apply (subst dbGetPenguin_eq)
  apply (simp add: datastore_Put_def Let_def log_event_def)
  done

lemma visitHandler_app_absent:
  "penguin_id \<notin> penguin.Id ` set (penguins s) \<Longrightarrow>
   visitHandler_app get_fault put_fault penguin_id w s = (w, s\<lparr>trace := trace s @ [ReadPenguins]\<rparr>)"
  by (simp add: visitHandler_app_def penguinExists_app_eq)

lemma visitHandler_app_stored:
  "penguin_id \<in> penguin.Id ` set (penguins s) \<Longrightarrow>
   visitHandler_app get_fault None penguin_id w s =
     (w, s\<lparr>datastore := (datastore s)(penguin_id \<mapsto>
              (fst (dbGetPenguin get_fault penguin_id s))
                \<lparr>penguinEntity.VisitCount :=
                   penguinEntity.VisitCount (fst (dbGetPenguin get_fault penguin_id s)) + 1\<rparr>),
           trace := trace s @ [ReadPenguins, DatastoreGet penguin_id,
              DatastorePut penguin_id
                ((fst (dbGetPenguin get_fault penguin_id s))
                   \<lparr>penguinEntity.VisitCount :=
                      penguinEntity.VisitCount (fst (dbGetPenguin get_fault penguin_id s)) + 1\<rparr>)]\<rparr>)"
  apply (simp add: visitHandler_app_def penguinExists_app_eq)
  apply (subst dbGetPenguin_eq)
  apply (simp add: datastore_Put_def Let_def log_event_def)
  done

lemma visitHandler_app_failed:
  "penguin_id \<in> penguin.Id ` set (penguins s) \<Longrightarrow>
   visitHandler_app get_fault (Some err) penguin_id w s =
     (w, s\<lparr>trace := trace s @ [ReadPenguins, DatastoreGet penguin_id,
              DatastorePut penguin_id
                ((fst (dbGetPenguin get_fault penguin_id s))
                   \<lparr>penguinEntity.VisitCount :=
                      penguinEntity.VisitCount (fst (dbGetPenguin get_fault penguin_id s)) + 1\<rparr>)]\<rparr>)"
  apply (simp add: visitHandler_app_def penguinExists_app_eq)
  apply (subst dbGetPenguin_eq)
  apply (simp add: datastore_Put_def Let_def log_event_def)
  done

lemma fishHandler_absent:
  "penguin_id \<notin> penguin.Id ` set (penguins s) \<Longrightarrow>
   fishHandler get_fault put_fault penguin_id w s =
     (w, s\<lparr>trace := trace s @ [MutexRLock, ReadPenguins, MutexRUnlock]\<rparr>)"
  by (simp add: fishHandler_def penguinExists_eq)

lemma fishHandler_stored:
  "penguin_id \<in> penguin.Id ` set (penguins s) \<Longrightarrow>
   fishHandler get_fault None penguin_id w s =
     (w, s\<lparr>datastore := (datastore s)(penguin_id \<mapsto>
              (fst (dbGetPenguin get_fault penguin_id s))
                \<lparr>penguinEntity.FishCount :=
                   penguinEntity.FishCount (fst (dbGetPenguin get_fault penguin_id s)) + 1\<rparr>),
           trace := trace s @ [MutexRLock, ReadPenguins, MutexRUnlock, DatastoreGet penguin_id,
              DatastorePut penguin_id
                ((fst (dbGetPenguin get_fault penguin_id s))
                   \<lparr>penguinEntity.FishCount :=
                      penguinEntity.FishCount (fst (dbGetPenguin get_fault penguin_id s)) + 1\<rparr>)]\<rparr>)"
  apply (simp add: fishHandler_def penguinExists_eq)
  apply (subst dbGetPenguin_eq)
  apply (simp add: datastore_Put_def Let_def log_event_def)
  done

lemma fishHandler_failed:
  "penguin_id \<in> penguin.Id ` set (penguins s) \<Longrightarrow>
   fishHandler get_fault (Some err) penguin_id w s =
     (w, s\<lparr>trace := trace s @ [MutexRLock, ReadPenguins, MutexRUnlock, DatastoreGet penguin_id,
              DatastorePut penguin_id
                ((fst (dbGetPenguin get_fault penguin_id s))
                   \<lparr>penguinEntity.FishCount :=
                      penguinEntity.FishCount (fst (dbGetPenguin get_fault penguin_id s)) + 1\<rparr>),
              Errorf (''Error writing into the datastore: '' @ error_text err)]\<rparr>)"
  apply (simp add: fishHandler_def penguinExists_eq)
  apply (subst dbGetPenguin_eq)
  apply (simp add: datastore_Put_def Let_def log_event_def)
  done

lemma fishHandler_app_absent:
  "penguin_id \<notin> penguin.Id ` set (penguins s) \<Longrightarrow>
   fishHandler_app get_fault put_fault penguin_id w s = (w, s\<lparr>trace := trace s @ [ReadPenguins]\<rparr>)"
  by (simp add: fishHandler_app_def penguinExists_app_eq)

lemma fishHandler_app_stored:
  "penguin_id \<in> penguin.Id ` set (penguins s) \<Longrightarrow>
   fishHandler_app get_fault None penguin_id w s =
     (w, s\<lparr>datastore := (datastore s)(penguin_id \<mapsto>
              (fst (dbGetPenguin get_fault penguin_id s))
                \<lparr>penguinEntity.FishCount :=
                   penguinEntity.FishCount (fst (dbGetPenguin get_fault penguin_id s)) + 1\<rparr>),
           trace := trace s @ [ReadPenguins, DatastoreGet penguin_id,
              DatastorePut penguin_id
                ((fst (dbGetPenguin get_fault penguin_id s))
                   \<lparr>penguinEntity.FishCount :=
                      penguinEntity.FishCount (fst (dbGetPenguin get_fault penguin_id s)) + 1\<rparr>)]\<rparr>)"
  apply (simp add: fishHandler_app_def penguinExists_app_eq)
  apply (subst dbGetPenguin_eq)
  apply (simp add: datastore_Put_def Let_def log_event_def)
  done

lemma fishHandler_app_failed:
  "penguin_id \<in> penguin.Id ` set (penguins s) \<Longrightarrow>
   fishHandler_app get_fault (Some err) penguin_id w s =
     (w, s\<lparr>trace := trace s @ [ReadPenguins, DatastoreGet penguin_id,
              DatastorePut penguin_id
                ((fst (dbGetPenguin get_fault penguin_id s))
                   \<lparr>penguinEntity.FishCount :=
                      penguinEntity.FishCount (fst (dbGetPenguin get_fault penguin_id s)) + 1\<rparr>)]\<rparr>)"
  apply (simp add: fishHandler_app_def penguinExists_app_eq)
  apply (subst dbGetPenguin_eq)
  apply (simp add: datastore_Put_def Let_def log_event_def)
  done

lemma bellyrubHandler_absent:
  "penguin_id \<notin> penguin.Id ` set (penguins s) \<Longrightarrow>
   bellyrubHandler get_fault put_fault penguin_id w s =
     (w, s\<lparr>trace := trace s @ [MutexRLock, ReadPenguins, MutexRUnlock]\<rparr>)"
  by (simp add: bellyrubHandler_def penguinExists_eq)

lemma bellyrubHandler_stored:
  "penguin_id \<in> penguin.Id ` set (penguins s) \<Longrightarrow>
   bellyrubHandler get_fault None penguin_id w s =
     (w, s\<lparr>datastore := (datastore s)(penguin_id \<mapsto>
              (fst (dbGetPenguin get_fault penguin_id s))
                \<lparr>penguinEntity.BellyrubCount :=
                   penguinEntity.BellyrubCount (fst (dbGetPenguin get_fault penguin_id s)) + 1\<rparr>),
           trace := trace s @ [MutexRLock, ReadPenguins, MutexRUnlock, DatastoreGet penguin_id,
              DatastorePut penguin_id
                ((fst (dbGetPenguin get_fault penguin_id s))
                   \<lparr>penguinEntity.BellyrubCount :=
                      penguinEntity.BellyrubCount (fst (dbGetPenguin get_fault penguin_id s)) + 1\<rparr>)]\<rparr>)"
  apply (simp add: bellyrubHandler_def penguinExists_eq)
  apply (subst dbGetPenguin_eq)
  apply (simp add: datastore_Put_def Let_def log_event_def)
  done

lemma bellyrubHandler_failed:
  "penguin_id \<in> penguin.Id ` set (penguins s) \<Longrightarrow>
   bellyrubHandler get_fault (Some err) penguin_id w s =
     (w, s\<lparr>trace := trace s @ [MutexRLock, ReadPenguins, MutexRUnlock, DatastoreGet penguin_id,
              DatastorePut penguin_id
                ((fst (dbGetPenguin get_fault penguin_id s))
                   \<lparr>penguinEntity.BellyrubCount :=
                      penguinEntity.BellyrubCount (fst (dbGetPenguin get_fault penguin_id s)) + 1\<rparr>),
              Errorf (''Error writing into the datastore: '' @ error_text err)]\<rparr>)"
  apply (simp add: bellyrubHandler_def penguinExists_eq)
  apply (subst dbGetPenguin_eq)
  apply (simp add: datastore_Put_def Let_def log_event_def)
  done

lemma bellyrubHandler_app_absent:
  "penguin_id \<notin> penguin.Id ` set (penguins s) \<Longrightarrow>
   bellyrubHandler_app get_fault put_fault penguin_id w s = (w, s\<lparr>trace := trace s @ [ReadPenguins]\<rparr>)"
  by (simp add: bellyrubHandler_app_def penguinExists_app_eq)

lemma bellyrubHandler_app_stored:
  "penguin_id \<in> penguin.Id ` set (penguins s) \<Longrightarrow>
   bellyrubHandler_app get_fault None penguin_id w s =
     (w, s\<lparr>datastore := (datastore s)(penguin_id \<mapsto>
              (fst (dbGetPenguin get_fault penguin_id s))
                \<lparr>penguinEntity.BellyrubCount :=
                   penguinEntity.BellyrubCount (fst (dbGetPenguin get_fault penguin_id s)) + 1\<rparr>),
           trace := trace s @ [ReadPenguins, DatastoreGet penguin_id,
              DatastorePut penguin_id
                ((fst (dbGetPenguin get_fault penguin_id s))
                   \<lparr>penguinEntity.BellyrubCount :=
                      penguinEntity.BellyrubCount (fst (dbGetPenguin get_fault penguin_id s)) + 1\<rparr>)]\<rparr>)"
  apply (simp add: bellyrubHandler_app_def penguinExists_app_eq)
  apply (subst dbGetPenguin_eq)
  apply (simp add: datastore_Put_def Let_def log_event_def)
  done

lemma bellyrubHandler_app_failed:
  "penguin_id \<in> penguin.Id ` set (penguins s) \<Longrightarrow>
   bellyrubHandler_app get_fault (Some err) penguin_id w s =
     (w, s\<lparr>trace := trace s @ [ReadPenguins, DatastoreGet penguin_id,
              DatastorePut penguin_id
                ((fst (dbGetPenguin get_fault penguin_id s))
                   \<lparr>penguinEntity.BellyrubCount :=
                      penguinEntity.BellyrubCount (fst (dbGetPenguin get_fault penguin_id s)) + 1\<rparr>)]\<rparr>)"
  apply (simp add: bellyrubHandler_app_def penguinExists_app_eq)
  apply (subst dbGetPenguin_eq)
  apply (simp add: datastore_Put_def Let_def log_event_def)
  done

lemmas handlers_absent = visitHandler_absent fishHandler_absent bellyrubHandler_absent
lemmas handlers_stored = visitHandler_stored fishHandler_stored bellyrubHandler_stored
lemmas handlers_failed = visitHandler_failed fishHandler_failed bellyrubHandler_failed
lemmas handlers_app_failed =
  visitHandler_app_failed fishHandler_app_failed bellyrubHandler_app_failed

lemma handlers_keep_roster:
  "penguins (snd (visitHandler get_fault put_fault penguin_id w s)) = penguins s"
  "penguins (snd (fishHandler get_fault put_fault penguin_id w s)) = penguins s"
  "penguins (snd (bellyrubHandler get_fault put_fault penguin_id w s)) = penguins s"
  by (cases "penguin_id \<in> penguin.Id ` set (penguins s)"; cases put_fault;
      simp add: handlers_absent handlers_stored handlers_failed)+

lemma handlers_keep_lastUpdateTime:
  "lastUpdateTime (snd (visitHandler get_fault put_fault penguin_id w s)) = lastUpdateTime s"
  "lastUpdateTime (snd (fishHandler get_fault put_fault penguin_id w s)) = lastUpdateTime s"
  "lastUpdateTime (snd (bellyrubHandler get_fault put_fault penguin_id w s)) = lastUpdateTime s"
  by (cases "penguin_id \<in> penguin.Id ` set (penguins s)"; cases put_fault;
      simp add: handlers_absent handlers_stored handlers_failed)+

lemma handlers_keep_response:
  "fst (visitHandler get_fault put_fault penguin_id w s) = w"
  "fst (fishHandler get_fault put_fault penguin_id w s) = w"
  "fst (bellyrubHandler get_fault put_fault penguin_id w s) = w"
  by (cases "penguin_id \<in> penguin.Id ` set (penguins s)"; cases put_fault;
      simp add: handlers_absent handlers_stored handlers_failed)+

section \<open>Locks, the handler of the roster, and the keys of the datastore\<close>

lemma under_write_lock_pass_events:
  "under_write_lock True (pass_events i ps @ es) = under_write_lock True es"
  by (induction ps arbitrary: i) simp_all

lemma write_lock_after_pass_events:
  "write_lock_after held (pass_events i ps @ es) = write_lock_after held es"
  by (induction ps arbitrary: i) simp_all

lemma roster_reads_locked_pass_events:
  "roster_reads_locked True (pass_events i ps @ es) = roster_reads_locked True es"
  by (induction ps arbitrary: i) simp_all

lemma updatePenguinsStatistics_app_fresh:
  "now1 - lastUpdateTime s \<le> 10 * Minute \<Longrightarrow>
   updatePenguinsStatistics_app get_faults now1 now2 s = s\<lparr>trace := trace s @ [ReadLastUpdateTime]\<rparr>"
  by (simp add: updatePenguinsStatistics_app_def Let_def time_Since_le_ttl log_event_def)

lemma updatePenguinsStatistics_app_stale:
  assumes "10 * Minute < now1 - lastUpdateTime s"
  shows "updatePenguinsStatistics_app get_faults now1 now2 s =
     s\<lparr>penguins := pass_roster get_faults (datastore s) 0 (penguins s),
       lastUpdateTime := now2,
       trace := trace s @ [ReadLastUpdateTime, WriteLastUpdateTime] @ pass_events 0 (penguins s)\<rparr>"
proof -
  let ?s1 = "log_event WriteLastUpdateTime
               ((log_event ReadLastUpdateTime s)\<lparr>lastUpdateTime := now2\<rparr>)"
  have "updatePenguinsStatistics_app get_faults now1 now2 s = range_penguins get_faults (length (penguins ?s1)) 0 ?s1"
    using assms by (simp add: updatePenguinsStatistics_app_def Let_def time_Since_le_ttl)
  also have "\<dots> =
      ?s1\<lparr>penguins := take 0 (penguins ?s1) @
                pass_roster get_faults (datastore ?s1) 0 (drop 0 (penguins ?s1)),
           trace := trace ?s1 @ pass_events 0 (drop 0 (penguins ?s1))\<rparr>"
    by (rule range_penguins_eq) simp
  finally show ?thesis
    by (simp add: log_event_def)
qed

lemma penguinsHandler_events:
  "new_events s (snd (penguinsHandler json_Marshal get_faults now1 now2 w s)) =
     new_events s (updatePenguinsStatistics get_faults now1 now2 s) @ [MutexRLock, ReadPenguins] @
     (case json_Marshal (penguins (updatePenguinsStatistics get_faults now1 now2 s)) of
        Inl err \<Rightarrow> [Errorf (''Can't create JSON response: '' @ error_text err), MutexRUnlock]
      | Inr p \<Rightarrow> [MutexRUnlock])"
  by (cases "now1 - lastUpdateTime s \<le> 10 * Minute")
     (simp_all add: penguinsHandler_def Let_def updatePenguinsStatistics_fresh
        updatePenguinsStatistics_stale new_events_def split: sum.splits)

lemma penguinsHandler_app_events:
  "new_events s (snd (penguinsHandler_app json_Marshal get_faults now1 now2 w s)) =
     MutexLock # new_events s (updatePenguinsStatistics_app get_faults now1 now2 s) @ [ReadPenguins] @
     (case json_Marshal (penguins (updatePenguinsStatistics_app get_faults now1 now2 s)) of
        Inl err \<Rightarrow> [Errorf (''Can't create JSON response: '' @ error_text err), MutexUnlock]
      | Inr p \<Rightarrow> [MutexUnlock])"
  apply (cases "now1 - lastUpdateTime s \<le> 10 * Minute")
   apply (simp_all add: penguinsHandler_app_def Let_def)
   apply (simp_all add: updatePenguinsStatistics_app_fresh updatePenguinsStatistics_app_stale
      new_events_def log_event_def split: sum.splits)
  done

lemma updatePenguinsStatistics_datastore:
  "datastore (updatePenguinsStatistics get_faults now1 now2 s) = datastore s"
  by (cases "now1 - lastUpdateTime s \<le> 10 * Minute")
     (simp_all add: updatePenguinsStatistics_fresh updatePenguinsStatistics_stale)

lemma penguinsHandler_datastore:
  "datastore (snd (penguinsHandler json_Marshal get_faults now1 now2 w s)) = datastore s"
  by (simp add: penguinsHandler_def Let_def updatePenguinsStatistics_datastore split: sum.splits)

lemma dbGetPenguin_Id:
  assumes "\<forall>k e. datastore s k = Some e \<longrightarrow> penguinEntity.Id e = k"
  shows "penguinEntity.Id (fst (dbGetPenguin get_fault id' s)) = id'"
  using assms by (simp add: dbGetPenguin_fst split: option.splits)

lemma handlers_keep_keys:
  assumes inv: "\<forall>k e. datastore s k = Some e \<longrightarrow> penguinEntity.Id e = k"
  shows "\<forall>k e. datastore (snd (visitHandler get_fault put_fault penguin_id w s)) k = Some e
           \<longrightarrow> penguinEntity.Id e = k"
    and "\<forall>k e. datastore (snd (fishHandler get_fault put_fault penguin_id w s)) k = Some e
           \<longrightarrow> penguinEntity.Id e = k"
    and "\<forall>k e. datastore (snd (bellyrubHandler get_fault put_fault penguin_id w s)) k = Some e
           \<longrightarrow> penguinEntity.Id e = k"
  using inv dbGetPenguin_Id [OF inv, of get_fault penguin_id]
  by (cases "penguin_id \<in> penguin.Id ` set (penguins s)"; cases put_fault;
      simp add: handlers_absent handlers_stored handlers_failed)+

lemma reachable_keys:
  "reachable s \<Longrightarrow> \<forall>k e. datastore s k = Some e \<longrightarrow> penguinEntity.Id e = k"
proof (induction rule: reachable.induct)
  case (start loaded now)
  show ?case by (simp add: init_def)
next
  case (restart s loaded now)
  then show ?case by (simp add: init_def)
next
  case (penguins_request s json_Marshal get_faults now1 now2 w)
  then show ?case by (simp add: penguinsHandler_datastore)
next
  case (update_request s now w)
  then show ?case by (simp add: updateHandler_def)
next
  case (visit_request s get_fault put_fault penguin_id w)
  from visit_request.IH show ?case by (rule handlers_keep_keys)
next
  case (fish_request s get_fault put_fault penguin_id w)
  from fish_request.IH show ?case by (rule handlers_keep_keys)
next
  case (bellyrub_request s get_fault put_fault penguin_id w)
  from bellyrub_request.IH show ?case by (rule handlers_keep_keys)
qed

section \<open>The cache refresher\<close>

text \<open>
  C1: \<^verbatim>\<open>updatePenguinsStatistics\<close> called within the ten minutes does nothing: when the
  clock it reads is at most ten minutes after \<^verbatim>\<open>lastUpdateTime\<close>, it fetches nothing from
  the datastore, makes no pass, and leaves the roster, \<^verbatim>\<open>lastUpdateTime\<close> and the
  datastore as they were. So two calls whose checks are at most ten minutes apart (the
  clock not running backwards inside the first call) make at most one pass between them,
  with at most one fetch for each roster entry.
\<close>

theorem C1_within_ttl_is_noop:
  "(now1 - lastUpdateTime s \<le> 10 * Minute \<longrightarrow>
      gateway_fetches (new_events s (updatePenguinsStatistics get_faults now1 now2 s)) = 0 \<and>
      reconciliation_passes (new_events s (updatePenguinsStatistics get_faults now1 now2 s)) = 0 \<and>
      penguins (updatePenguinsStatistics get_faults now1 now2 s) = penguins s \<and>
      lastUpdateTime (updatePenguinsStatistics get_faults now1 now2 s) = lastUpdateTime s \<and>
      datastore (updatePenguinsStatistics get_faults now1 now2 s) = datastore s) \<and>
   (a1 \<le> b1 \<and> a2 - a1 \<le> 10 * Minute \<longrightarrow>
      reconciliation_passes
        (new_events s
           (updatePenguinsStatistics get_faults2 a2 b2
              (updatePenguinsStatistics get_faults1 a1 b1 s))) \<le> 1 \<and>
      gateway_fetches
        (new_events s
           (updatePenguinsStatistics get_faults2 a2 b2
              (updatePenguinsStatistics get_faults1 a1 b1 s)))
        \<le> length (penguins s))"
proof (intro conjI impI)
  assume fresh: "now1 - lastUpdateTime s \<le> 10 * Minute"
  show "gateway_fetches (new_events s (updatePenguinsStatistics get_faults now1 now2 s)) = 0"
    using fresh by (simp add: new_events_fresh count_events)
  show "reconciliation_passes (new_events s (updatePenguinsStatistics get_faults now1 now2 s)) = 0"
    using fresh by (simp add: new_events_fresh count_events)
  show "penguins (updatePenguinsStatistics get_faults now1 now2 s) = penguins s"
    using fresh by (simp add: updatePenguinsStatistics_fresh)
  show "lastUpdateTime (updatePenguinsStatistics get_faults now1 now2 s) = lastUpdateTime s"
    using fresh by (simp add: updatePenguinsStatistics_fresh)
  show "datastore (updatePenguinsStatistics get_faults now1 now2 s) = datastore s"
    using fresh by (simp add: updatePenguinsStatistics_fresh)
next
  assume window: "a1 \<le> b1 \<and> a2 - a1 \<le> 10 * Minute"
  let ?s1 = "updatePenguinsStatistics get_faults1 a1 b1 s"
  let ?s2 = "updatePenguinsStatistics get_faults2 a2 b2 ?s1"
  have split: "new_events s ?s2 = new_events s ?s1 @ new_events ?s1 ?s2"
    by (rule new_events_trans) (rule trace_update)+
  have both: "reconciliation_passes (new_events s ?s2) \<le> 1 \<and>
      gateway_fetches (new_events s ?s2) \<le> length (penguins s)"
  proof (cases "a1 - lastUpdateTime s \<le> 10 * Minute")
    case True
    then have first: "new_events s ?s1 = [ReadLastUpdateTime]"
      and same: "penguins ?s1 = penguins s"
      by (simp_all add: new_events_fresh) (simp add: updatePenguinsStatistics_fresh)
    show ?thesis
    proof (cases "a2 - lastUpdateTime ?s1 \<le> 10 * Minute")
      case True
      then show ?thesis
        by (simp add: split first new_events_fresh count_events)
    next
      case False
      then have "10 * Minute < a2 - lastUpdateTime ?s1" by simp
      then show ?thesis
        by (simp add: split first new_events_stale same count_events)
    qed
  next
    case False
    then have stale: "10 * Minute < a1 - lastUpdateTime s" by simp
    have "lastUpdateTime ?s1 = b1"
      using stale by (simp add: updatePenguinsStatistics_stale)
    with window have "a2 - lastUpdateTime ?s1 \<le> 10 * Minute" by simp
    then have second: "new_events ?s1 ?s2 = [ReadLastUpdateTime]"
      by (rule new_events_fresh)
    show ?thesis
      using stale
      by (simp add: split second new_events_stale count_events)
  qed
  show "reconciliation_passes (new_events s ?s2) \<le> 1" using both by simp
  show "gateway_fetches (new_events s ?s2) \<le> length (penguins s)" using both by simp
qed

theorem C1_within_ttl_is_noop_witness:
  "(5 * Minute - lastUpdateTime scenario_server \<le> 10 * Minute \<and>
    gateway_fetches (new_events scenario_server
       (updatePenguinsStatistics (\<lambda>i. None) (5 * Minute) (5 * Minute + 1) scenario_server))
      = 0 \<and>
    penguins (updatePenguinsStatistics (\<lambda>i. None) (5 * Minute) (5 * Minute + 1)
       scenario_server) = scenario_roster \<and>
    lastUpdateTime (updatePenguinsStatistics (\<lambda>i. None) (5 * Minute) (5 * Minute + 1)
       scenario_server) = 0) \<and>
   ((30 * Minute \<le> 30 * Minute + 1 \<and> 35 * Minute - 30 * Minute \<le> 10 * Minute) \<and>
    reconciliation_passes (new_events scenario_server
       (updatePenguinsStatistics (\<lambda>i. None) (35 * Minute) (35 * Minute + 1)
          (updatePenguinsStatistics (\<lambda>i. None) (30 * Minute) (30 * Minute + 1)
             scenario_server))) \<le> 1)"
  using C1_within_ttl_is_noop [where ?now1.0 = "5 * Minute" and s = scenario_server
      and get_faults = "\<lambda>i. None" and ?now2.0 = "5 * Minute + 1"
      and ?a1.0 = "30 * Minute" and ?b1.0 = "30 * Minute + 1"
      and ?a2.0 = "35 * Minute" and ?b2.0 = "35 * Minute + 1"
      and ?get_faults1.0 = "\<lambda>i. None" and ?get_faults2.0 = "\<lambda>i. None"]
  by (simp add: scenario_server_simps Minute_def)

text \<open>
  C2: when \<^verbatim>\<open>updatePenguinsStatistics\<close> does refresh (the clock it reads is more than ten
  minutes after \<^verbatim>\<open>lastUpdateTime\<close>), it assigns the clock to \<^verbatim>\<open>lastUpdateTime\<close> first,
  and then, for each roster entry in order, fetches the record of its id and overwrites
  the entry's three counters with the record's, the record being what \<^verbatim>\<open>dbGetPenguin\<close>
  returns for the answer the datastore gives to that fetch. The roster's length and order
  and every entry's id, name and bio stay as they were.
\<close>

theorem C2_refresh_overwrites_counters:
  assumes "10 * Minute < now1 - lastUpdateTime s"
  shows "lastUpdateTime (updatePenguinsStatistics get_faults now1 now2 s) = now2 \<and>
         new_events s (updatePenguinsStatistics get_faults now1 now2 s) =
           [ReadLastUpdateTime, MutexLock, WriteLastUpdateTime]
             @ pass_events 0 (penguins s) @ [MutexUnlock] \<and>
         penguins (updatePenguinsStatistics get_faults now1 now2 s) =
           map (\<lambda>(i, p).
                  p\<lparr>penguin.VisitCount :=
                      penguinEntity.VisitCount
                        (fst (dbGetPenguin (get_faults i) (penguin.Id p) s)),
                    penguin.FishCount :=
                      penguinEntity.FishCount
                        (fst (dbGetPenguin (get_faults i) (penguin.Id p) s)),
                    penguin.BellyrubCount :=
                      penguinEntity.BellyrubCount
                        (fst (dbGetPenguin (get_faults i) (penguin.Id p) s))\<rparr>)
               (enumerate 0 (penguins s)) \<and>
         penguins (updatePenguinsStatistics (\<lambda>i. None) now1 now2 s) =
           map (\<lambda>p. p\<lparr>penguin.VisitCount :=
                         penguinEntity.VisitCount (fst (dbGetPenguin None (penguin.Id p) s)),
                       penguin.FishCount :=
                         penguinEntity.FishCount (fst (dbGetPenguin None (penguin.Id p) s)),
                       penguin.BellyrubCount :=
                         penguinEntity.BellyrubCount
                           (fst (dbGetPenguin None (penguin.Id p) s))\<rparr>)
               (penguins s) \<and>
         length (penguins (updatePenguinsStatistics get_faults now1 now2 s))
           = length (penguins s) \<and>
         map penguin.Id (penguins (updatePenguinsStatistics get_faults now1 now2 s))
           = map penguin.Id (penguins s) \<and>
         map penguin.Name (penguins (updatePenguinsStatistics get_faults now1 now2 s))
           = map penguin.Name (penguins s) \<and>
         map penguin.Bio (penguins (updatePenguinsStatistics get_faults now1 now2 s))
           = map penguin.Bio (penguins s) \<and>
         datastore (updatePenguinsStatistics get_faults now1 now2 s) = datastore s"
proof -
  have general: "pass_roster get_faults (datastore s) 0 (penguins s) =
      map (\<lambda>(i, p).
                  p\<lparr>penguin.VisitCount :=
                      penguinEntity.VisitCount
                        (fst (dbGetPenguin (get_faults i) (penguin.Id p) s)),
                    penguin.FishCount :=
                      penguinEntity.FishCount
                        (fst (dbGetPenguin (get_faults i) (penguin.Id p) s)),
                    penguin.BellyrubCount :=
                      penguinEntity.BellyrubCount
                        (fst (dbGetPenguin (get_faults i) (penguin.Id p) s))\<rparr>)
               (enumerate 0 (penguins s))"
    by (simp add: pass_roster_enumerate fetched_dbGetPenguin applyCounters_def)
  have no_faults: "pass_roster (\<lambda>i. None) (datastore s) 0 (penguins s) =
      map (\<lambda>p. p\<lparr>penguin.VisitCount :=
                         penguinEntity.VisitCount (fst (dbGetPenguin None (penguin.Id p) s)),
                       penguin.FishCount :=
                         penguinEntity.FishCount (fst (dbGetPenguin None (penguin.Id p) s)),
                       penguin.BellyrubCount :=
                         penguinEntity.BellyrubCount
                           (fst (dbGetPenguin None (penguin.Id p) s))\<rparr>)
               (penguins s)"
    by (simp add: pass_roster_no_faults fetched_dbGetPenguin applyCounters_def)
  have roster: "penguins (updatePenguinsStatistics gf now1 now2 s) =
      pass_roster gf (datastore s) 0 (penguins s)" for gf
    by (simp add: updatePenguinsStatistics_stale [OF assms])
  have "lastUpdateTime (updatePenguinsStatistics get_faults now1 now2 s) = now2"
    and "new_events s (updatePenguinsStatistics get_faults now1 now2 s) =
           [ReadLastUpdateTime, MutexLock, WriteLastUpdateTime]
             @ pass_events 0 (penguins s) @ [MutexUnlock]"
    and "datastore (updatePenguinsStatistics get_faults now1 now2 s) = datastore s"
    by (simp_all add: updatePenguinsStatistics_stale [OF assms] new_events_def)
  moreover have "length (penguins (updatePenguinsStatistics get_faults now1 now2 s))
           = length (penguins s)"
    and "map penguin.Id (penguins (updatePenguinsStatistics get_faults now1 now2 s))
           = map penguin.Id (penguins s)"
    and "map penguin.Name (penguins (updatePenguinsStatistics get_faults now1 now2 s))
           = map penguin.Name (penguins s)"
    and "map penguin.Bio (penguins (updatePenguinsStatistics get_faults now1 now2 s))
           = map penguin.Bio (penguins s)"
    by (simp_all add: roster pass_roster_static)
  ultimately show ?thesis
    using general no_faults by (simp only: roster)
qed

theorem C2_refresh_overwrites_counters_witness:
  "10 * Minute < 30 * Minute -
      lastUpdateTime (scenario_server\<lparr>datastore := [''p1'' \<mapsto>
         \<lparr>penguinEntity.Id = ''p1'', VisitCount = 3, FishCount = 2, BellyrubCount = 1\<rparr>]\<rparr>) \<and>
   lastUpdateTime (updatePenguinsStatistics (\<lambda>i. None) (30 * Minute) (30 * Minute + 1)
      (scenario_server\<lparr>datastore := [''p1'' \<mapsto>
         \<lparr>penguinEntity.Id = ''p1'', VisitCount = 3, FishCount = 2, BellyrubCount = 1\<rparr>]\<rparr>))
     = 30 * Minute + 1 \<and>
   penguins (updatePenguinsStatistics (\<lambda>i. None) (30 * Minute) (30 * Minute + 1)
      (scenario_server\<lparr>datastore := [''p1'' \<mapsto>
         \<lparr>penguinEntity.Id = ''p1'', VisitCount = 3, FishCount = 2, BellyrubCount = 1\<rparr>]\<rparr>))
     = [\<lparr>penguin.Id = ''p1'', Name = ''Pingu'', Bio = [], VisitCount = 3, FishCount = 2,
         BellyrubCount = 1\<rparr>]"
  using C2_refresh_overwrites_counters [where ?now1.0 = "30 * Minute"
      and s = "scenario_server\<lparr>datastore := [''p1'' \<mapsto>
         \<lparr>penguinEntity.Id = ''p1'', VisitCount = 3, FishCount = 2, BellyrubCount = 1\<rparr>]\<rparr>"
      and ?now2.0 = "30 * Minute + 1" and get_faults = "\<lambda>i. None"]
  by (simp add: scenario_server_simps scenario_roster_def dbGetPenguin_fst_None Minute_def)

text \<open>
  C3: after \<^verbatim>\<open>updateHandler\<close>, which sets \<^verbatim>\<open>lastUpdateTime\<close> twenty minutes before the
  clock, the next \<^verbatim>\<open>updatePenguinsStatistics\<close> makes a pass, whatever the state before
  and however soon it is called (its clock not before the handler's).
\<close>

theorem C3_forced_update_refreshes:
  assumes "now \<le> now1"
  shows "lastUpdateTime (snd (updateHandler now w s)) = now - 20 * Minute \<and>
         reconciliation_passes
           (new_events (snd (updateHandler now w s))
              (updatePenguinsStatistics get_faults now1 now2 (snd (updateHandler now w s))))
           = 1 \<and>
         gateway_fetches
           (new_events (snd (updateHandler now w s))
              (updatePenguinsStatistics get_faults now1 now2 (snd (updateHandler now w s))))
           = length (penguins s) \<and>
         lastUpdateTime
           (updatePenguinsStatistics get_faults now1 now2 (snd (updateHandler now w s)))
           = now2 \<and>
         penguins (updatePenguinsStatistics get_faults now1 now2 (snd (updateHandler now w s))) =
           map (\<lambda>(i, p).
                  p\<lparr>penguin.VisitCount :=
                      penguinEntity.VisitCount
                        (fst (dbGetPenguin (get_faults i) (penguin.Id p) s)),
                    penguin.FishCount :=
                      penguinEntity.FishCount
                        (fst (dbGetPenguin (get_faults i) (penguin.Id p) s)),
                    penguin.BellyrubCount :=
                      penguinEntity.BellyrubCount
                        (fst (dbGetPenguin (get_faults i) (penguin.Id p) s))\<rparr>)
               (enumerate 0 (penguins s)) \<and>
         penguins (updatePenguinsStatistics (\<lambda>i. None) now1 now2 (snd (updateHandler now w s))) =
           map (\<lambda>p. p\<lparr>penguin.VisitCount :=
                         penguinEntity.VisitCount (fst (dbGetPenguin None (penguin.Id p) s)),
                       penguin.FishCount :=
                         penguinEntity.FishCount (fst (dbGetPenguin None (penguin.Id p) s)),
                       penguin.BellyrubCount :=
                         penguinEntity.BellyrubCount
                           (fst (dbGetPenguin None (penguin.Id p) s))\<rparr>)
               (penguins s)"
proof -
  let ?s1 = "snd (updateHandler now w s)"
  have s1: "lastUpdateTime ?s1 = now - 20 * Minute" "penguins ?s1 = penguins s"
    "datastore ?s1 = datastore s"
    by (simp_all add: updateHandler_def time_Add_def)
  have stale: "10 * Minute < now1 - lastUpdateTime ?s1"
    using assms by (simp add: s1 Minute_def)
  have general: "pass_roster get_faults (datastore s) 0 (penguins s) =
      map (\<lambda>(i, p).
                  p\<lparr>penguin.VisitCount :=
                      penguinEntity.VisitCount
                        (fst (dbGetPenguin (get_faults i) (penguin.Id p) s)),
                    penguin.FishCount :=
                      penguinEntity.FishCount
                        (fst (dbGetPenguin (get_faults i) (penguin.Id p) s)),
                    penguin.BellyrubCount :=
                      penguinEntity.BellyrubCount
                        (fst (dbGetPenguin (get_faults i) (penguin.Id p) s))\<rparr>)
               (enumerate 0 (penguins s))"
    by (simp add: pass_roster_enumerate fetched_dbGetPenguin applyCounters_def)
  have no_faults: "pass_roster (\<lambda>i. None) (datastore s) 0 (penguins s) =
      map (\<lambda>p. p\<lparr>penguin.VisitCount :=
                         penguinEntity.VisitCount (fst (dbGetPenguin None (penguin.Id p) s)),
                       penguin.FishCount :=
                         penguinEntity.FishCount (fst (dbGetPenguin None (penguin.Id p) s)),
                       penguin.BellyrubCount :=
                         penguinEntity.BellyrubCount
                           (fst (dbGetPenguin None (penguin.Id p) s))\<rparr>)
               (penguins s)"
    by (simp add: pass_roster_no_faults fetched_dbGetPenguin applyCounters_def)
  have roster: "penguins (updatePenguinsStatistics gf now1 now2 ?s1) =
      pass_roster gf (datastore s) 0 (penguins s)" for gf
    by (simp add: updatePenguinsStatistics_stale [OF stale] s1)
  have "reconciliation_passes
           (new_events ?s1 (updatePenguinsStatistics get_faults now1 now2 ?s1)) = 1"
    and "gateway_fetches
           (new_events ?s1 (updatePenguinsStatistics get_faults now1 now2 ?s1))
           = length (penguins s)"
    and "lastUpdateTime (updatePenguinsStatistics get_faults now1 now2 ?s1) = now2"
    by (simp_all add: s1 updatePenguinsStatistics_stale [OF stale] new_events_def count_events)
  then show ?thesis
    using general no_faults s1(1) by (simp only: roster)
qed

theorem C3_forced_update_refreshes_witness:
  "(5 * Minute \<le> 5 * Minute) \<and>
   lastUpdateTime (snd (updateHandler (5 * Minute) empty_response scenario_server))
     = - (15 * Minute) \<and>
   reconciliation_passes
     (new_events (snd (updateHandler (5 * Minute) empty_response scenario_server))
        (updatePenguinsStatistics (\<lambda>i. None) (5 * Minute) (5 * Minute)
           (snd (updateHandler (5 * Minute) empty_response scenario_server)))) = 1 \<and>
   gateway_fetches
     (new_events (snd (updateHandler (5 * Minute) empty_response scenario_server))
        (updatePenguinsStatistics (\<lambda>i. None) (5 * Minute) (5 * Minute)
           (snd (updateHandler (5 * Minute) empty_response scenario_server)))) = 1"
  using C3_forced_update_refreshes [where now = "5 * Minute" and ?now1.0 = "5 * Minute"
      and w = empty_response and s = scenario_server and ?now2.0 = "5 * Minute"
      and get_faults = "\<lambda>i. None"]
  by (simp add: scenario_server_simps scenario_roster_def Minute_def)

section \<open>The persistence gateway\<close>

text \<open>
  C6, on the code: \<^verbatim>\<open>dbGetPenguin\<close> returns the zero record with the requested id on
  every error of \<^verbatim>\<open>datastore.Get\<close>, not only when no record is stored. With the record
  3, 2, 1 stored for \<^verbatim>\<open>p1\<close>, a \<^verbatim>\<open>Get\<close> that is answered returns it; a \<^verbatim>\<open>Get\<close> that times
  out returns 0, 0, 0, and the visit handler then stores 1, 0, 0 over the record.
\<close>

theorem C6_get_error_returns_zero_record:
  "fst (dbGetPenguin None ''p1''
          (scenario_server\<lparr>datastore := [''p1'' \<mapsto>
             \<lparr>penguinEntity.Id = ''p1'', VisitCount = 3, FishCount = 2,
               BellyrubCount = 1\<rparr>]\<rparr>)) =
     \<lparr>penguinEntity.Id = ''p1'', VisitCount = 3, FishCount = 2, BellyrubCount = 1\<rparr> \<and>
   fst (dbGetPenguin (Some (ErrDatastore ''timeout'')) ''p1''
          (scenario_server\<lparr>datastore := [''p1'' \<mapsto>
             \<lparr>penguinEntity.Id = ''p1'', VisitCount = 3, FishCount = 2,
               BellyrubCount = 1\<rparr>]\<rparr>)) =
     \<lparr>penguinEntity.Id = ''p1'', VisitCount = 0, FishCount = 0, BellyrubCount = 0\<rparr> \<and>
   datastore
     (snd (visitHandler (Some (ErrDatastore ''timeout'')) None ''p1'' empty_response
        (scenario_server\<lparr>datastore := [''p1'' \<mapsto>
           \<lparr>penguinEntity.Id = ''p1'', VisitCount = 3, FishCount = 2,
             BellyrubCount = 1\<rparr>]\<rparr>))) ''p1'' =
     Some \<lparr>penguinEntity.Id = ''p1'', VisitCount = 1, FishCount = 0, BellyrubCount = 0\<rparr>"
  by (simp add: dbGetPenguin_fst visitHandler_stored scenario_server_simps scenario_roster_def)

section \<open>The event handlers\<close>

text \<open>
  C4: for an id of the roster, each event handler writes to the datastore, under that id,
  the record \<^verbatim>\<open>dbGetPenguin\<close> fetched with its own counter one higher (Go's \<^verbatim>\<open>+= 1\<close>) and
  the two other counters as fetched: this is the one \<^verbatim>\<open>Put\<close> it issues, whatever the store
  answers, and the record stored when the \<^verbatim>\<open>Put\<close> succeeds. So three visits in sequence
  to an id with no record leave a record with a visit count of 3.
\<close>

theorem C4_handlers_store_incremented_record:
  assumes "penguin_id \<in> penguin.Id ` set (penguins s)"
  shows
    "datastore (snd (visitHandler get_fault None penguin_id w s)) penguin_id =
       Some ((fst (dbGetPenguin get_fault penguin_id s))
               \<lparr>penguinEntity.VisitCount :=
                  penguinEntity.VisitCount (fst (dbGetPenguin get_fault penguin_id s)) + 1\<rparr>) \<and>
     datastore (snd (fishHandler get_fault None penguin_id w s)) penguin_id =
       Some ((fst (dbGetPenguin get_fault penguin_id s))
               \<lparr>penguinEntity.FishCount :=
                  penguinEntity.FishCount (fst (dbGetPenguin get_fault penguin_id s)) + 1\<rparr>) \<and>
     datastore (snd (bellyrubHandler get_fault None penguin_id w s)) penguin_id =
       Some ((fst (dbGetPenguin get_fault penguin_id s))
               \<lparr>penguinEntity.BellyrubCount :=
                  penguinEntity.BellyrubCount (fst (dbGetPenguin get_fault penguin_id s)) + 1\<rparr>) \<and>
     filter is_DatastorePut (new_events s (snd (visitHandler get_fault put_fault penguin_id w s))) =
       [DatastorePut penguin_id
          ((fst (dbGetPenguin get_fault penguin_id s))
             \<lparr>penguinEntity.VisitCount :=
                penguinEntity.VisitCount (fst (dbGetPenguin get_fault penguin_id s)) + 1\<rparr>)] \<and>
     filter is_DatastorePut (new_events s (snd (fishHandler get_fault put_fault penguin_id w s))) =
       [DatastorePut penguin_id
          ((fst (dbGetPenguin get_fault penguin_id s))
             \<lparr>penguinEntity.FishCount :=
                penguinEntity.FishCount (fst (dbGetPenguin get_fault penguin_id s)) + 1\<rparr>)] \<and>
     filter is_DatastorePut (new_events s (snd (bellyrubHandler get_fault put_fault penguin_id w s))) =
       [DatastorePut penguin_id
          ((fst (dbGetPenguin get_fault penguin_id s))
             \<lparr>penguinEntity.BellyrubCount :=
                penguinEntity.BellyrubCount (fst (dbGetPenguin get_fault penguin_id s)) + 1\<rparr>)] \<and>
     (datastore s penguin_id = None \<longrightarrow>
        datastore
          (snd (visitHandler None None penguin_id w3
             (snd (visitHandler None None penguin_id w2
                (snd (visitHandler None None penguin_id w1 s)))))) penguin_id =
          Some \<lparr>penguinEntity.Id = penguin_id, VisitCount = 3, FishCount = 0,
                BellyrubCount = 0\<rparr>)"
proof -
  have puts:
    "filter is_DatastorePut (new_events s (snd (visitHandler get_fault put_fault penguin_id w s))) =
       [DatastorePut penguin_id
          ((fst (dbGetPenguin get_fault penguin_id s))
             \<lparr>penguinEntity.VisitCount :=
                penguinEntity.VisitCount (fst (dbGetPenguin get_fault penguin_id s)) + 1\<rparr>)]"
    "filter is_DatastorePut (new_events s (snd (fishHandler get_fault put_fault penguin_id w s))) =
       [DatastorePut penguin_id
          ((fst (dbGetPenguin get_fault penguin_id s))
             \<lparr>penguinEntity.FishCount :=
                penguinEntity.FishCount (fst (dbGetPenguin get_fault penguin_id s)) + 1\<rparr>)]"
    "filter is_DatastorePut (new_events s (snd (bellyrubHandler get_fault put_fault penguin_id w s))) =
       [DatastorePut penguin_id
          ((fst (dbGetPenguin get_fault penguin_id s))
             \<lparr>penguinEntity.BellyrubCount :=
                penguinEntity.BellyrubCount (fst (dbGetPenguin get_fault penguin_id s)) + 1\<rparr>)]"
    using assms
    by (cases put_fault; simp add: handlers_stored handlers_failed new_events_def)+
  have three: "datastore
          (snd (visitHandler None None penguin_id w3
             (snd (visitHandler None None penguin_id w2
                (snd (visitHandler None None penguin_id w1 s)))))) penguin_id =
          Some \<lparr>penguinEntity.Id = penguin_id, VisitCount = 3, FishCount = 0,
                BellyrubCount = 0\<rparr>"
    if absent: "datastore s penguin_id = None"
  proof -
    let ?s1 = "snd (visitHandler None None penguin_id w1 s)"
    let ?s2 = "snd (visitHandler None None penguin_id w2 ?s1)"
    have in1: "penguin_id \<in> penguin.Id ` set (penguins ?s1)"
      using assms by (simp add: handlers_keep_roster)
    then have in2: "penguin_id \<in> penguin.Id ` set (penguins ?s2)"
      by (simp add: handlers_keep_roster)
    have d1: "datastore ?s1 penguin_id =
        Some \<lparr>penguinEntity.Id = penguin_id, VisitCount = 1, FishCount = 0, BellyrubCount = 0\<rparr>"
      using assms absent by (simp add: visitHandler_stored dbGetPenguin_fst_None)
    have d2: "datastore ?s2 penguin_id =
        Some \<lparr>penguinEntity.Id = penguin_id, VisitCount = 2, FishCount = 0, BellyrubCount = 0\<rparr>"
      using d1 by (simp add: visitHandler_stored [OF in1] dbGetPenguin_fst_None)
    show ?thesis
      using d2 by (simp add: visitHandler_stored [OF in2] dbGetPenguin_fst_None)
  qed
  show ?thesis
    using assms puts three by (simp add: handlers_stored)
qed

theorem C4_handlers_store_incremented_record_witness:
  "''p1'' \<in> penguin.Id ` set (penguins scenario_server) \<and>
   datastore scenario_server ''p1'' = None \<and>
   datastore (snd (fishHandler None None ''p1'' empty_response scenario_server)) ''p1'' =
     Some \<lparr>penguinEntity.Id = ''p1'', VisitCount = 0, FishCount = 1, BellyrubCount = 0\<rparr> \<and>
   datastore
     (snd (visitHandler None None ''p1'' empty_response
        (snd (visitHandler None None ''p1'' empty_response
           (snd (visitHandler None None ''p1'' empty_response scenario_server)))))) ''p1'' =
     Some \<lparr>penguinEntity.Id = ''p1'', VisitCount = 3, FishCount = 0, BellyrubCount = 0\<rparr>"
  using C4_handlers_store_incremented_record [where penguin_id = "''p1''"
      and s = scenario_server and get_fault = None and put_fault = None
      and w = empty_response and ?w1.0 = empty_response and ?w2.0 = empty_response
      and ?w3.0 = empty_response]
  by (simp add: scenario_server_simps scenario_roster_def dbGetPenguin_fst_None)

text \<open>
  C5: for an id that is not in the roster, \<^verbatim>\<open>penguinExists\<close> returns false and each of
  the three handlers does nothing but that check: the response is untouched, no \<^verbatim>\<open>Put\<close>
  is issued, nothing is logged, and the state differs by the events of the check only.
\<close>

theorem C5_unknown_id_is_noop:
  assumes "penguin_id \<notin> penguin.Id ` set (penguins s)"
  shows
    "fst (penguinExists penguin_id s) = False \<and>
     visitHandler get_fault put_fault penguin_id w s =
       (w, s\<lparr>trace := trace s @ [MutexRLock, ReadPenguins, MutexRUnlock]\<rparr>) \<and>
     datastore (snd (visitHandler get_fault put_fault penguin_id w s)) = datastore s \<and>
     gateway_puts (new_events s (snd (visitHandler get_fault put_fault penguin_id w s))) = 0 \<and>
     logged_errors (new_events s (snd (visitHandler get_fault put_fault penguin_id w s))) = 0 \<and>
     fishHandler get_fault put_fault penguin_id w s =
       (w, s\<lparr>trace := trace s @ [MutexRLock, ReadPenguins, MutexRUnlock]\<rparr>) \<and>
     datastore (snd (fishHandler get_fault put_fault penguin_id w s)) = datastore s \<and>
     gateway_puts (new_events s (snd (fishHandler get_fault put_fault penguin_id w s))) = 0 \<and>
     logged_errors (new_events s (snd (fishHandler get_fault put_fault penguin_id w s))) = 0 \<and>
     bellyrubHandler get_fault put_fault penguin_id w s =
       (w, s\<lparr>trace := trace s @ [MutexRLock, ReadPenguins, MutexRUnlock]\<rparr>) \<and>
     datastore (snd (bellyrubHandler get_fault put_fault penguin_id w s)) = datastore s \<and>
     gateway_puts (new_events s (snd (bellyrubHandler get_fault put_fault penguin_id w s))) = 0 \<and>
     logged_errors (new_events s (snd (bellyrubHandler get_fault put_fault penguin_id w s))) = 0"
  using assms
  by (simp add: handlers_absent penguinExists_eq new_events_def gateway_puts_def
      logged_errors_def)

theorem C5_unknown_id_is_noop_witness:
  "''unknown'' \<notin> penguin.Id ` set (penguins scenario_server) \<and>
   fst (penguinExists ''unknown'' scenario_server) = False \<and>
   visitHandler None None ''unknown'' empty_response scenario_server =
     (empty_response, scenario_server\<lparr>trace := [MutexRLock, ReadPenguins, MutexRUnlock]\<rparr>) \<and>
   datastore (snd (fishHandler None None ''unknown'' empty_response scenario_server)) = Map.empty \<and>
   gateway_puts (new_events scenario_server
      (snd (bellyrubHandler None None ''unknown'' empty_response scenario_server))) = 0"
  using C5_unknown_id_is_noop [where penguin_id = "''unknown''" and s = scenario_server
      and get_fault = None and put_fault = None and w = empty_response]
  by (simp add: scenario_server_simps scenario_roster_def new_events_def gateway_puts_def)

text \<open>
  C7: the three event handlers leave the roster as it was, for every request. A call of
  \<^verbatim>\<open>updatePenguinsStatistics\<close> within the ten minutes after the handler still leaves it
  so; a pass after a stored increment shows the incremented counter in the entries of
  that id whose fetch the datastore answers.
\<close>

theorem C7_handlers_leave_roster:
  "penguins (snd (visitHandler get_fault put_fault penguin_id w s)) = penguins s \<and>
   penguins (snd (fishHandler get_fault put_fault penguin_id w s)) = penguins s \<and>
   penguins (snd (bellyrubHandler get_fault put_fault penguin_id w s)) = penguins s \<and>
   (now1 - lastUpdateTime s \<le> 10 * Minute \<longrightarrow>
      penguins (updatePenguinsStatistics get_faults now1 now2
        (snd (visitHandler get_fault put_fault penguin_id w s))) = penguins s \<and>
      penguins (updatePenguinsStatistics get_faults now1 now2
        (snd (fishHandler get_fault put_fault penguin_id w s))) = penguins s \<and>
      penguins (updatePenguinsStatistics get_faults now1 now2
        (snd (bellyrubHandler get_fault put_fault penguin_id w s))) = penguins s) \<and>
   (10 * Minute < now1 - lastUpdateTime s \<and> i < length (penguins s) \<and>
    penguin.Id (penguins s ! i) = penguin_id \<and> get_faults i = None \<longrightarrow>
      penguin.VisitCount (penguins (updatePenguinsStatistics get_faults now1 now2
        (snd (visitHandler get_fault None penguin_id w s))) ! i)
        = penguinEntity.VisitCount (fst (dbGetPenguin get_fault penguin_id s)) + 1 \<and>
      penguin.FishCount (penguins (updatePenguinsStatistics get_faults now1 now2
        (snd (fishHandler get_fault None penguin_id w s))) ! i)
        = penguinEntity.FishCount (fst (dbGetPenguin get_fault penguin_id s)) + 1 \<and>
      penguin.BellyrubCount (penguins (updatePenguinsStatistics get_faults now1 now2
        (snd (bellyrubHandler get_fault None penguin_id w s))) ! i)
        = penguinEntity.BellyrubCount (fst (dbGetPenguin get_fault penguin_id s)) + 1)"
proof (intro conjI impI)
  show "penguins (snd (visitHandler get_fault put_fault penguin_id w s)) = penguins s"
    "penguins (snd (fishHandler get_fault put_fault penguin_id w s)) = penguins s"
    "penguins (snd (bellyrubHandler get_fault put_fault penguin_id w s)) = penguins s"
    by (rule handlers_keep_roster)+
next
  assume fresh: "now1 - lastUpdateTime s \<le> 10 * Minute"
  show "penguins (updatePenguinsStatistics get_faults now1 now2
        (snd (visitHandler get_fault put_fault penguin_id w s))) = penguins s"
    using fresh
    by (simp add: updatePenguinsStatistics_fresh handlers_keep_lastUpdateTime handlers_keep_roster)
  show "penguins (updatePenguinsStatistics get_faults now1 now2
        (snd (fishHandler get_fault put_fault penguin_id w s))) = penguins s"
    using fresh
    by (simp add: updatePenguinsStatistics_fresh handlers_keep_lastUpdateTime handlers_keep_roster)
  show "penguins (updatePenguinsStatistics get_faults now1 now2
        (snd (bellyrubHandler get_fault put_fault penguin_id w s))) = penguins s"
    using fresh
    by (simp add: updatePenguinsStatistics_fresh handlers_keep_lastUpdateTime handlers_keep_roster)
next
  assume later: "10 * Minute < now1 - lastUpdateTime s \<and> i < length (penguins s) \<and>
    penguin.Id (penguins s ! i) = penguin_id \<and> get_faults i = None"
  then have known: "penguin_id \<in> penguin.Id ` set (penguins s)"
    by (metis image_eqI nth_mem)
  show "penguin.VisitCount (penguins (updatePenguinsStatistics get_faults now1 now2
        (snd (visitHandler get_fault None penguin_id w s))) ! i)
        = penguinEntity.VisitCount (fst (dbGetPenguin get_fault penguin_id s)) + 1"
    using later
    by (simp add: updatePenguinsStatistics_stale handlers_keep_lastUpdateTime
        handlers_keep_roster pass_roster_nth applyCounters_def fetched_def
        visitHandler_stored [OF known])
  show "penguin.FishCount (penguins (updatePenguinsStatistics get_faults now1 now2
        (snd (fishHandler get_fault None penguin_id w s))) ! i)
        = penguinEntity.FishCount (fst (dbGetPenguin get_fault penguin_id s)) + 1"
    using later
    by (simp add: updatePenguinsStatistics_stale handlers_keep_lastUpdateTime
        handlers_keep_roster pass_roster_nth applyCounters_def fetched_def
        fishHandler_stored [OF known])
  show "penguin.BellyrubCount (penguins (updatePenguinsStatistics get_faults now1 now2
        (snd (bellyrubHandler get_fault None penguin_id w s))) ! i)
        = penguinEntity.BellyrubCount (fst (dbGetPenguin get_fault penguin_id s)) + 1"
    using later
    by (simp add: updatePenguinsStatistics_stale handlers_keep_lastUpdateTime
        handlers_keep_roster pass_roster_nth applyCounters_def fetched_def
        bellyrubHandler_stored [OF known])
qed

theorem C7_handlers_leave_roster_witness:
  "penguins (snd (visitHandler None None ''p1'' empty_response scenario_server)) = scenario_roster \<and>
   (5 * Minute - lastUpdateTime scenario_server \<le> 10 * Minute \<and>
    penguins (updatePenguinsStatistics (\<lambda>i. None) (5 * Minute) (5 * Minute)
      (snd (visitHandler None None ''p1'' empty_response scenario_server))) = scenario_roster) \<and>
   ((10 * Minute < 30 * Minute - lastUpdateTime scenario_server \<and>
     0 < length (penguins scenario_server) \<and>
     penguin.Id (penguins scenario_server ! 0) = ''p1'' \<and>
     (\<lambda>i::nat. None :: error option) 0 = None) \<and>
    penguin.VisitCount (penguins (updatePenguinsStatistics (\<lambda>i. None) (30 * Minute) (30 * Minute)
      (snd (visitHandler None None ''p1'' empty_response scenario_server))) ! 0) = 1)"
  using C7_handlers_leave_roster [where get_fault = None and put_fault = None
      and penguin_id = "''p1''" and w = empty_response and s = scenario_server
      and get_faults = "\<lambda>i. None" and ?now1.0 = "5 * Minute" and ?now2.0 = "5 * Minute"
      and i = 0]
    C7_handlers_leave_roster [where get_fault = None and put_fault = None
      and penguin_id = "''p1''" and w = empty_response and s = scenario_server
      and get_faults = "\<lambda>i. None" and ?now1.0 = "30 * Minute" and ?now2.0 = "30 * Minute"
      and i = 0]
  by (simp add: scenario_server_simps scenario_roster_def dbGetPenguin_fst_None Minute_def)

text \<open>
  C9, as the code has it: when the \<^verbatim>\<open>Put\<close> of an event handler fails, for an id of the
  roster, the handler returns with the response untouched and the roster, the datastore
  and \<^verbatim>\<open>lastUpdateTime\<close> as they were, after one \<^verbatim>\<open>Get\<close> and one \<^verbatim>\<open>Put\<close>, whatever
  the \<^verbatim>\<open>Get\<close> was answered. The handlers
  with the \<^verbatim>\<open>RWMutex\<close> log the failure with \<^verbatim>\<open>c.Errorf\<close>; the handlers of
  \<^verbatim>\<open>app/app.go\<close> discard the error of \<^verbatim>\<open>Put\<close> and log nothing.
\<close>

theorem C9_failed_put_is_silent:
  assumes "penguin_id \<in> penguin.Id ` set (penguins s)"
  shows
    "visitHandler get_fault (Some err) penguin_id w s =
       (w, s\<lparr>trace := trace s @ [MutexRLock, ReadPenguins, MutexRUnlock, DatastoreGet penguin_id,
              DatastorePut penguin_id
                ((fst (dbGetPenguin get_fault penguin_id s))
                   \<lparr>penguinEntity.VisitCount :=
                      penguinEntity.VisitCount (fst (dbGetPenguin get_fault penguin_id s)) + 1\<rparr>),
              Errorf (''Error writing into the datastore: '' @ error_text err)]\<rparr>) \<and>
     fishHandler get_fault (Some err) penguin_id w s =
       (w, s\<lparr>trace := trace s @ [MutexRLock, ReadPenguins, MutexRUnlock, DatastoreGet penguin_id,
              DatastorePut penguin_id
                ((fst (dbGetPenguin get_fault penguin_id s))
                   \<lparr>penguinEntity.FishCount :=
                      penguinEntity.FishCount (fst (dbGetPenguin get_fault penguin_id s)) + 1\<rparr>),
              Errorf (''Error writing into the datastore: '' @ error_text err)]\<rparr>) \<and>
     bellyrubHandler get_fault (Some err) penguin_id w s =
       (w, s\<lparr>trace := trace s @ [MutexRLock, ReadPenguins, MutexRUnlock, DatastoreGet penguin_id,
              DatastorePut penguin_id
                ((fst (dbGetPenguin get_fault penguin_id s))
                   \<lparr>penguinEntity.BellyrubCount :=
                      penguinEntity.BellyrubCount (fst (dbGetPenguin get_fault penguin_id s)) + 1\<rparr>),
              Errorf (''Error writing into the datastore: '' @ error_text err)]\<rparr>) \<and>
     visitHandler_app get_fault (Some err) penguin_id w s =
       (w, s\<lparr>trace := trace s @ [ReadPenguins, DatastoreGet penguin_id,
              DatastorePut penguin_id
                ((fst (dbGetPenguin get_fault penguin_id s))
                   \<lparr>penguinEntity.VisitCount :=
                      penguinEntity.VisitCount (fst (dbGetPenguin get_fault penguin_id s)) + 1\<rparr>)]\<rparr>) \<and>
     fishHandler_app get_fault (Some err) penguin_id w s =
       (w, s\<lparr>trace := trace s @ [ReadPenguins, DatastoreGet penguin_id,
              DatastorePut penguin_id
                ((fst (dbGetPenguin get_fault penguin_id s))
                   \<lparr>penguinEntity.FishCount :=
                      penguinEntity.FishCount (fst (dbGetPenguin get_fault penguin_id s)) + 1\<rparr>)]\<rparr>) \<and>
     bellyrubHandler_app get_fault (Some err) penguin_id w s =
       (w, s\<lparr>trace := trace s @ [ReadPenguins, DatastoreGet penguin_id,
              DatastorePut penguin_id
                ((fst (dbGetPenguin get_fault penguin_id s))
                   \<lparr>penguinEntity.BellyrubCount :=
                      penguinEntity.BellyrubCount (fst (dbGetPenguin get_fault penguin_id s)) + 1\<rparr>)]\<rparr>) \<and>
     logged_errors (new_events s (snd (visitHandler get_fault (Some err) penguin_id w s))) = 1 \<and>
     logged_errors (new_events s (snd (fishHandler get_fault (Some err) penguin_id w s))) = 1 \<and>
     logged_errors (new_events s (snd (bellyrubHandler get_fault (Some err) penguin_id w s))) = 1 \<and>
     logged_errors (new_events s (snd (visitHandler_app get_fault (Some err) penguin_id w s))) = 0 \<and>
     logged_errors (new_events s (snd (fishHandler_app get_fault (Some err) penguin_id w s))) = 0 \<and>
     logged_errors (new_events s (snd (bellyrubHandler_app get_fault (Some err) penguin_id w s))) = 0"
  using assms
  by (simp add: handlers_failed handlers_app_failed new_events_def logged_errors_def)

theorem C9_failed_put_is_silent_witness:
  "''p1'' \<in> penguin.Id ` set (penguins scenario_server) \<and>
   visitHandler None (Some (ErrDatastore ''timeout'')) ''p1'' empty_response scenario_server =
     (empty_response,
      scenario_server\<lparr>trace := [MutexRLock, ReadPenguins, MutexRUnlock, DatastoreGet ''p1'',
         DatastorePut ''p1''
           \<lparr>penguinEntity.Id = ''p1'', VisitCount = 1, FishCount = 0, BellyrubCount = 0\<rparr>,
         Errorf ''Error writing into the datastore: timeout'']\<rparr>) \<and>
   visitHandler_app None (Some (ErrDatastore ''timeout'')) ''p1'' empty_response scenario_server =
     (empty_response,
      scenario_server\<lparr>trace := [ReadPenguins, DatastoreGet ''p1'',
         DatastorePut ''p1''
           \<lparr>penguinEntity.Id = ''p1'', VisitCount = 1, FishCount = 0, BellyrubCount = 0\<rparr>]\<rparr>)"
  using C9_failed_put_is_silent [where penguin_id = "''p1''" and s = scenario_server
      and get_fault = None and err = "ErrDatastore ''timeout''" and w = empty_response]
  by (simp add: scenario_server_simps scenario_roster_def dbGetPenguin_fst_None)

text \<open>
  C9 as stated fails on \<^verbatim>\<open>app/app.go\<close>: its visit handler, on the scenario's server with
  a failing \<^verbatim>\<open>Put\<close>, logs nothing.
\<close>

theorem C9_app_handler_logs_nothing:
  "logged_errors
     (new_events scenario_server
        (snd (visitHandler_app None (Some (ErrDatastore ''timeout'')) ''p1'' empty_response
                scenario_server))) = 0"
  by (simp add: visitHandler_app_failed scenario_server_simps scenario_roster_def
      new_events_def logged_errors_def)

section \<open>The access serializer\<close>

text \<open>
  C8, as the code has it: \<^verbatim>\<open>updatePenguinsStatistics\<close> with the \<^verbatim>\<open>RWMutex\<close> reads
  \<^verbatim>\<open>lastUpdateTime\<close> for its staleness check before it takes the lock; when the roster
  is stale, all that follows, from the assignment of \<^verbatim>\<open>lastUpdateTime\<close> to the end of the
  loop, runs under the write lock, which is released on return. \<^verbatim>\<open>penguinsHandler\<close> and
  \<^verbatim>\<open>penguinExists\<close> read the roster under the read lock. In \<^verbatim>\<open>app/app.go\<close> the whole
  refresh, the check included, runs under the mutex that \<^verbatim>\<open>penguinsHandler\<close> holds.
\<close>

theorem C8_refresh_lock_scope:
  "(10 * Minute < now1 - lastUpdateTime s \<longrightarrow>
      hd (new_events s (updatePenguinsStatistics get_faults now1 now2 s)) = ReadLastUpdateTime \<and>
      \<not> under_write_lock False (new_events s (updatePenguinsStatistics get_faults now1 now2 s)) \<and>
      under_write_lock False (tl (new_events s (updatePenguinsStatistics get_faults now1 now2 s))) \<and>
      \<not> write_lock_after False (new_events s (updatePenguinsStatistics get_faults now1 now2 s))) \<and>
   roster_reads_locked False (new_events s (snd (penguinsHandler json_Marshal get_faults now1 now2 w s))) \<and>
   roster_reads_locked False (new_events s (snd (penguinExists penguin_id s))) \<and>
   under_write_lock False
     (new_events s (snd (penguinsHandler_app json_Marshal get_faults now1 now2 w s))) \<and>
   \<not> write_lock_after False
     (new_events s (snd (penguinsHandler_app json_Marshal get_faults now1 now2 w s)))"
proof (intro conjI impI)
  assume stale: "10 * Minute < now1 - lastUpdateTime s"
  show "hd (new_events s (updatePenguinsStatistics get_faults now1 now2 s)) = ReadLastUpdateTime"
    using stale by (simp add: new_events_stale)
  show "\<not> under_write_lock False (new_events s (updatePenguinsStatistics get_faults now1 now2 s))"
    using stale by (simp add: new_events_stale)
  show "under_write_lock False (tl (new_events s (updatePenguinsStatistics get_faults now1 now2 s)))"
    using stale by (simp add: new_events_stale under_write_lock_pass_events)
  show "\<not> write_lock_after False (new_events s (updatePenguinsStatistics get_faults now1 now2 s))"
    using stale by (simp add: new_events_stale write_lock_after_pass_events)
next
  show "roster_reads_locked False
          (new_events s (snd (penguinsHandler json_Marshal get_faults now1 now2 w s)))"
    by (cases "now1 - lastUpdateTime s \<le> 10 * Minute")
       (simp_all add: penguinsHandler_events new_events_fresh new_events_stale
          roster_reads_locked_pass_events split: sum.splits)
  show "roster_reads_locked False (new_events s (snd (penguinExists penguin_id s)))"
    by (simp add: penguinExists_eq new_events_def)
  have app_events: "new_events s (updatePenguinsStatistics_app get_faults now1 now2 s) =
      (if now1 - lastUpdateTime s \<le> 10 * Minute then [ReadLastUpdateTime]
       else [ReadLastUpdateTime, WriteLastUpdateTime] @ pass_events 0 (penguins s))"
    by (simp add: updatePenguinsStatistics_app_fresh updatePenguinsStatistics_app_stale
        new_events_def)
  show "under_write_lock False
          (new_events s (snd (penguinsHandler_app json_Marshal get_faults now1 now2 w s)))"
    by (simp add: penguinsHandler_app_events app_events under_write_lock_pass_events
        split: sum.splits)
  show "\<not> write_lock_after False
          (new_events s (snd (penguinsHandler_app json_Marshal get_faults now1 now2 w s)))"
    by (simp add: penguinsHandler_app_events app_events write_lock_after_pass_events
        split: sum.splits)
qed

theorem C8_refresh_lock_scope_witness:
  "10 * Minute < 30 * Minute - lastUpdateTime scenario_server \<and>
   new_events scenario_server
     (updatePenguinsStatistics (\<lambda>i. None) (30 * Minute) (30 * Minute) scenario_server) =
     [ReadLastUpdateTime, MutexLock, WriteLastUpdateTime, ReadPenguins, DatastoreGet ''p1'',
      WritePenguin 0, MutexUnlock] \<and>
   under_write_lock False (tl (new_events scenario_server
     (updatePenguinsStatistics (\<lambda>i. None) (30 * Minute) (30 * Minute) scenario_server))) \<and>
   under_write_lock False (new_events scenario_server
     (snd (penguinsHandler_app (\<lambda>ps. Inr []) (\<lambda>i. None) (30 * Minute) (30 * Minute) empty_response
        scenario_server)))"
  using C8_refresh_lock_scope [where ?now1.0 = "30 * Minute" and s = scenario_server
      and ?now2.0 = "30 * Minute" and json_Marshal = "\<lambda>ps. Inr []" and w = empty_response
      and penguin_id = "''p1''" and get_faults = "\<lambda>i. None"]
  by (simp add: new_events_stale scenario_server_simps scenario_roster_def Minute_def)

text \<open>
  C8 as stated fails with the \<^verbatim>\<open>RWMutex\<close>: on the scenario's server at minute 30, the
  steps of the refresh are not all under the write lock.
\<close>

theorem C8_check_outside_lock:
  "\<not> under_write_lock False
       (new_events scenario_server
          (updatePenguinsStatistics (\<lambda>i. None) (30 * Minute) (30 * Minute) scenario_server))"
  by (simp add: new_events_stale scenario_server_simps scenario_roster_def Minute_def)

section \<open>The keys of the stored records\<close>

text \<open>
  C10: in every reachable state each stored record carries, in its \<^verbatim>\<open>Id\<close> field, the
  key it is stored under; so \<^verbatim>\<open>dbGetPenguin\<close> returns a record with the requested id,
  stored or not.
\<close>

theorem C10_stored_records_carry_their_key:
  assumes "reachable s"
  shows "(datastore s k = Some e \<longrightarrow> penguinEntity.Id e = k) \<and>
         penguinEntity.Id (fst (dbGetPenguin get_fault id' s)) = id'"
  using reachable_keys [OF assms] dbGetPenguin_Id [of s get_fault id'] by blast

theorem C10_stored_records_carry_their_key_witness:
  "reachable (snd (visitHandler None None ''p1'' empty_response scenario_server)) \<and>
   datastore (snd (visitHandler None None ''p1'' empty_response scenario_server)) ''p1'' =
     Some \<lparr>penguinEntity.Id = ''p1'', VisitCount = 1, FishCount = 0, BellyrubCount = 0\<rparr> \<and>
   penguinEntity.Id
     \<lparr>penguinEntity.Id = ''p1'', VisitCount = 1, FishCount = 0, BellyrubCount = 0\<rparr> = ''p1'' \<and>
   penguinEntity.Id
     (fst (dbGetPenguin None ''p2'' (snd (visitHandler None None ''p1'' empty_response scenario_server))))
     = ''p2''"
proof -
  have r: "reachable (snd (visitHandler None None ''p1'' empty_response scenario_server))"
    unfolding scenario_server_def by (rule reachable.visit_request) (rule reachable.start)
  have d: "datastore (snd (visitHandler None None ''p1'' empty_response scenario_server)) ''p1'' =
     Some \<lparr>penguinEntity.Id = ''p1'', VisitCount = 1, FishCount = 0, BellyrubCount = 0\<rparr>"
    by (simp add: visitHandler_stored scenario_server_simps scenario_roster_def
        dbGetPenguin_fst_None)
  show ?thesis
    using r d
      C10_stored_records_carry_their_key [OF r, where k = "''p1''"
        and e = "\<lparr>penguinEntity.Id = ''p1'', VisitCount = 1, FishCount = 0,
                  BellyrubCount = 0\<rparr>"
        and get_fault = None and id' = "''p2''"]
    by simp
qed

end
